theory Spec2Isabelle
  imports Main "HOL-Library.AList"
begin

section \<open>JavaScript values\<close>

text \<open>
  Tool servers, response handlers and the model API exchange untyped JavaScript values
  (\<^verbatim>\<open>any\<close> in the TypeScript source). The embedding keeps the constructors the code
  inspects with \<^verbatim>\<open>typeof\<close>, truthiness tests and \<^verbatim>\<open>!== undefined\<close>. Numbers are
  integers plus \<open>NaN\<close>: the code only tests numbers for truthiness. An object is the list
  of its own properties, looked up by name; a property that is missing reads as
  \<^verbatim>\<open>undefined\<close>.
\<close>

datatype jsval =
    JUndefined
  | JNull
  | JBool bool
  | JNum int
  | JNaN
  | JStr string
  | JArr "jsval list"
  | JObj "(string \<times> jsval) list"

datatype jstype = TUndefined | TObject | TBoolean | TNumber | TString

fun typeof :: "jsval \<Rightarrow> jstype" where
  "typeof JUndefined = TUndefined"
| "typeof JNull = TObject"
| "typeof (JBool b) = TBoolean"
| "typeof (JNum n) = TNumber"
| "typeof JNaN = TNumber"
| "typeof (JStr s) = TString"
| "typeof (JArr xs) = TObject"
| "typeof (JObj kvs) = TObject"

text \<open>Truthiness, as \<^verbatim>\<open>!x\<close>, \<^verbatim>\<open>x && y\<close> and \<^verbatim>\<open>x || y\<close> test it.\<close>

fun truthy :: "jsval \<Rightarrow> bool" where
  "truthy JUndefined = False"
| "truthy JNull = False"
| "truthy (JBool b) = b"
| "truthy (JNum n) = (n \<noteq> 0)"
| "truthy JNaN = False"
| "truthy (JStr s) = (s \<noteq> [])"
| "truthy (JArr xs) = True"
| "truthy (JObj kvs) = True"

text \<open>\<^verbatim>\<open>a || b\<close>\<close>

definition jsOr :: "jsval \<Rightarrow> jsval \<Rightarrow> jsval" where
  "jsOr a b = (if truthy a then a else b)"

text \<open>
  \<^verbatim>\<open>o.k\<close> for the property names the code reads (\<^verbatim>\<open>message\<close>, \<^verbatim>\<open>paths\<close>,
  \<^verbatim>\<open>rawContent\<close>). The code reads a property only after it has checked that the value
  is truthy and of type \<^verbatim>\<open>object\<close>, so the read never throws; an array has none of
  these properties.
\<close>

fun getProp :: "jsval \<Rightarrow> string \<Rightarrow> jsval" where
  "getProp (JObj kvs) k = (case map_of kvs k of None \<Rightarrow> JUndefined | Some v \<Rightarrow> v)"
| "getProp v k = JUndefined"

section \<open>Tool responses (src/tools/utils.ts)\<close>

text \<open>
  The message of the response built for a value that is not an object: the UTF-8 bytes of
  the seven Chinese characters of utils.ts line 40 ("invalid tool response").
\<close>

definition invalidResponseMessage :: string where
  "invalidResponseMessage =
     [CHR 0xE6, CHR 0x97, CHR 0xA0, CHR 0xE6, CHR 0x95, CHR 0x88, CHR 0xE7,
      CHR 0x9A, CHR 0x84, CHR 0xE5, CHR 0xB7, CHR 0xA5, CHR 0xE5, CHR 0x85,
      CHR 0xB7, CHR 0xE5, CHR 0x93, CHR 0x8D, CHR 0xE5, CHR 0xBA, CHR 0x94]"

text \<open>An object literal \<^verbatim>\<open>{message: m, paths: p, rawContent: r}\<close>.\<close>

definition toolResponse :: "jsval \<Rightarrow> jsval \<Rightarrow> jsval \<Rightarrow> jsval" where
  "toolResponse m p r = JObj [(''message'', m), (''paths'', p), (''rawContent'', r)]"

text \<open>utils.ts lines 16-28: every field is defaulted with \<^verbatim>\<open>||\<close>.\<close>

definition createToolResponse :: "jsval \<Rightarrow> jsval" where
  "createToolResponse options =
     toolResponse
       (jsOr (getProp options ''message'') (JStr ''''))
       (jsOr (getProp options ''paths'') (JObj []))
       (jsOr (getProp options ''rawContent'') JNull)"

text \<open>utils.ts lines 36-50.\<close>

definition validateToolResponse :: "jsval \<Rightarrow> jsval" where
  "validateToolResponse response =
     (if \<not> truthy response \<or> typeof response \<noteq> TObject then
        createToolResponse (JObj [(''message'', JStr invalidResponseMessage)])
      else
        createToolResponse (toolResponse
          (if typeof (getProp response ''message'') = TString
           then getProp response ''message'' else JStr '''')
          (if truthy (getProp response ''paths'') \<and> typeof (getProp response ''paths'') = TObject
           then getProp response ''paths'' else JObj [])
          (if getProp response ''rawContent'' \<noteq> JUndefined
           then getProp response ''rawContent'' else JNull)))"

text \<open>
  The shape of a normalized tool response: an object whose \<^verbatim>\<open>message\<close> is a string, whose
  \<^verbatim>\<open>paths\<close> is an object and whose \<^verbatim>\<open>rawContent\<close> is present (any value but
  \<^verbatim>\<open>undefined\<close>).
\<close>

definition conforms :: "jsval \<Rightarrow> bool" where
  "conforms r =
     (truthy r \<and> typeof r = TObject
      \<and> typeof (getProp r ''message'') = TString
      \<and> truthy (getProp r ''paths'') \<and> typeof (getProp r ''paths'') = TObject
      \<and> getProp r ''rawContent'' \<noteq> JUndefined)"

text \<open>
  The coercion as the specification words it: the defaults
  \<^verbatim>\<open>{message: "", paths: {}, rawContent: null}\<close>, each overridden by the field of the
  input when that field is present and valid.
\<close>

definition specCoerce :: "jsval \<Rightarrow> jsval" where
  "specCoerce x =
     toolResponse
       (if typeof (getProp x ''message'') = TString then getProp x ''message'' else JStr '''')
       (if truthy (getProp x ''paths'') \<and> typeof (getProp x ''paths'') = TObject
        then getProp x ''paths'' else JObj [])
       (if getProp x ''rawContent'' \<noteq> JUndefined then getProp x ''rawContent'' else JNull)"

section \<open>Strings and maps\<close>

text \<open>
  \<^verbatim>\<open>s.split('__')\<close>: the pieces of \<open>s\<close> between the occurrences of two underscores,
  found from the left. The first argument collects the current piece in reverse.
\<close>

fun splitUnderscores :: "string \<Rightarrow> string \<Rightarrow> string list" where
  "splitUnderscores acc [] = [rev acc]"
| "splitUnderscores acc [c] = [rev (c # acc)]"
| "splitUnderscores acc (c # d # cs) =
     (if c = CHR ''_'' \<and> d = CHR ''_'' then rev acc # splitUnderscores [] cs
      else splitUnderscores (c # acc) (d # cs))"

text \<open>\<^verbatim>\<open>lines.join("\n")\<close>\<close>

fun joinLines :: "string list \<Rightarrow> string" where
  "joinLines [] = []"
| "joinLines [x] = x"
| "joinLines (x # y # ys) = x @ [CHR 0x0A] @ joinLines (y # ys)"

text \<open>
  A JavaScript \<^verbatim>\<open>Map\<close> is the list of its entries in insertion order, without duplicate
  keys: \<^verbatim>\<open>m.get(k)\<close> is \<^const>\<open>map_of\<close>, \<^verbatim>\<open>m.set(k, v)\<close> is \<^const>\<open>AList.update\<close>
  (an existing key keeps its place), \<^verbatim>\<open>m.values()\<close> is \<open>map snd\<close>, \<^verbatim>\<open>m.clear()\<close>
  gives \<open>[]\<close> and \<^verbatim>\<open>m.size === 0\<close> is \<open>m = []\<close>.
\<close>

section \<open>Thrown values\<close>

text \<open>
  What a \<^verbatim>\<open>throw\<close> or a rejected promise carries: an \<^verbatim>\<open>Error\<close> object with its
  name and message (\<^verbatim>\<open>new Error(m)\<close> is \<open>ErrorObj ''Error'' m\<close>), or any other value.
\<close>

datatype thrown = ErrorObj string string | Thrown jsval

text \<open>\<^verbatim>\<open>_formatErrorMessage\<close>, lines 655-666 of the client.\<close>

fun formatErrorMessage :: "thrown \<Rightarrow> string" where
  "formatErrorMessage (ErrorObj n m) = m"
| "formatErrorMessage (Thrown (JStr s)) = s"
| "formatErrorMessage (Thrown (JObj kvs)) =
     (case map_of kvs ''message'' of
        Some (JStr m) \<Rightarrow> m
      | _ \<Rightarrow> ''An unknown error occurred'')"
| "formatErrorMessage (Thrown v) = ''An unknown error occurred''"

section \<open>Configuration and messages (src/types.ts)\<close>

text \<open>
  Record fields carry a prefix where the source reuses a field name in several interfaces:
  \<open>tc_\<close> for \<^verbatim>\<open>ToolConfig\<close>, \<open>sc_\<close> for \<^verbatim>\<open>ServerConfig\<close>, \<open>fn_\<close> for the
  \<^verbatim>\<open>function\<close> part of a tool call, \<open>call_\<close> for a tool call, \<open>msg_\<close> for
  \<^verbatim>\<open>Message\<close>. An optional field is an \<open>option\<close>.
\<close>

record ToolConfig =
  tc_name :: string
  tc_description :: "string option"
  tc_systemPrompt :: "string option"
  tc_responseHandler :: "(jsval \<Rightarrow> thrown + jsval) option"
  tc_saveOutput :: "bool option"
  tc_sendResultToAI :: "bool option"

datatype serverType = command | sse

record ServerConfig =
  sc_name :: string
  sc_type :: serverType
  sc_command :: "string option"
  sc_args :: "string list option"
  sc_env :: "(string \<times> string) list option"
  sc_url :: "string option"
  sc_isOpen :: bool
  sc_sendResultToAI :: "bool option"

datatype role = user | assistant | tool | system

record functionCall =
  fn_name :: string
  fn_arguments :: string

record toolCall =
  call_id :: string
  call_function :: functionCall

text \<open>
  The content of a message is typed \<^verbatim>\<open>string\<close>, but the reply of the model API is taken
  as it comes (\<^verbatim>\<open>any\<close>) and has \<^verbatim>\<open>content: null\<close> when it only requests tools:
  \<open>None\<close> is a missing or null content. \<open>msg_tool_calls = None\<close> is a missing or null
  \<^verbatim>\<open>tool_calls\<close>; \<open>Some []\<close> is an empty array, which is truthy in JavaScript.
\<close>

record Message =
  msg_role :: role
  msg_content :: "string option"
  msg_tool_calls :: "toolCall list option"
  msg_tool_call_id :: "string option"
  msg_name :: "string option"

record OpenAITool =
  tool_name :: string
  tool_description :: string
  tool_parameters :: jsval

record ProcessQueryResult =
  fullOutput :: string
  finalAiResponse :: "string option"

section \<open>External collaborators\<close>

text \<open>
  A connected tool server (the SDK's \<^verbatim>\<open>Client\<close>): \<open>listTools\<close> gives the catalog, each
  entry a name, an optional description and an input schema (\<open>JUndefined\<close> when missing);
  \<open>callTool\<close> takes the bare tool name (\<open>None\<close> when the identifier had no second
  piece) and the parsed arguments and gives the \<^verbatim>\<open>content\<close> of the result. Both may
  throw.
\<close>

record toolInfo =
  info_name :: string
  info_description :: "string option"
  info_inputSchema :: jsval

record session =
  listTools :: "thrown + toolInfo list"
  callTool :: "string option \<Rightarrow> jsval \<Rightarrow> thrown + jsval"

record StdioServerParameters =
  param_command :: string
  param_args :: "string list"
  param_env :: "(string \<times> string) list"

datatype transport =
    StdioClientTransport StdioServerParameters
  | SSEClientTransport string

record apiOptions =
  opt_model :: string
  opt_tools :: "OpenAITool list option"
  opt_tool_choice :: "string option"

text \<open>
  The \<^verbatim>\<open>ApiResponse\<close> of src/api/ApiClient.ts: \<open>resp_choices\<close> is
  \<^verbatim>\<open>data.choices\<close> with each choice's message, \<open>None\<close> when \<^verbatim>\<open>data\<close> or
  \<^verbatim>\<open>data.choices\<close> is missing.
\<close>

record ApiResponse =
  resp_success :: bool
  resp_choices :: "Message list option"
  resp_error :: "string option"

text \<open>
  Everything outside the client: the JSON functions of the runtime, the process
  environment, the SDK's connect and close, and the chat-completion call of the API client.
  \<open>jsonParse\<close> gives \<open>None\<close> where \<^verbatim>\<open>JSON.parse\<close> throws; \<open>transportClose\<close> gives
  the value thrown when closing fails.
\<close>

record env =
  jsonParse :: "string \<Rightarrow> jsval option"
  jsonStringify :: "jsval \<Rightarrow> string"
  jsonStringifyPretty :: "jsval \<Rightarrow> string"
  thrownToString :: "thrown \<Rightarrow> string"
  homedir :: string
  processEnv :: "(string \<times> string) list"
  newURL :: "string \<Rightarrow> thrown + string"
  clientConnect :: "transport \<Rightarrow> thrown + session"
  transportClose :: "transport \<Rightarrow> thrown option"
  callOpenAIChatCompletion :: "Message list \<Rightarrow> apiOptions \<Rightarrow> thrown + ApiResponse"

section \<open>The client (class MCPClient)\<close>

record MCPClient =
  sessions :: "(string \<times> session) list"
  transports :: "(string \<times> transport) list"
  toolConfigs :: "(string \<times> ToolConfig) list"
  serverConfigs :: "(string \<times> ServerConfig) list"

text \<open>The constructor, lines 43-54, and \<^verbatim>\<open>loadToolConfigs\<close>, lines 59-68.\<close>

definition newMCPClient :: "ServerConfig list \<Rightarrow> MCPClient" where
  "newMCPClient config =
     \<lparr>sessions = [], transports = [], toolConfigs = [],
      serverConfigs = foldl (\<lambda>m cfg. AList.update (sc_name cfg) cfg m) [] config\<rparr>"

definition loadToolConfigs :: "(string \<times> ToolConfig) list \<Rightarrow> MCPClient \<Rightarrow> MCPClient" where
  "loadToolConfigs configs c =
     c\<lparr>toolConfigs := foldl (\<lambda>m (k, v). AList.update k v m) (toolConfigs c) configs\<rparr>"

text \<open>Lines 206-209.\<close>

definition getToolConfig :: "MCPClient \<Rightarrow> string \<Rightarrow> ToolConfig option" where
  "getToolConfig c toolId = map_of (toolConfigs c) toolId"

subsection \<open>Connecting\<close>

text \<open>
  Lines 165-170: an argument that starts with \<^verbatim>\<open>~/\<close> has its first character replaced
  by the home directory.
\<close>

definition expandTilde :: "string \<Rightarrow> string \<Rightarrow> string" where
  "expandTilde home arg = (if take 2 arg = ''~/'' then home @ drop 1 arg else arg)"

text \<open>
  \<^verbatim>\<open>createCommandTransport\<close>, lines 157-190. A missing or empty command rejects. The
  environment of the process is overridden, key by key, by the server's own.
\<close>

definition createCommandTransport :: "env \<Rightarrow> ServerConfig \<Rightarrow> thrown + transport" where
  "createCommandTransport e serverConfig =
     (case sc_command serverConfig of
        None \<Rightarrow> Inl (ErrorObj ''Error'' (''Missing command for server '' @ sc_name serverConfig))
      | Some cmd \<Rightarrow>
          if cmd = [] then
            Inl (ErrorObj ''Error'' (''Missing command for server '' @ sc_name serverConfig))
          else
            Inr (StdioClientTransport
              \<lparr>param_command = cmd,
               param_args = map (expandTilde (homedir e))
                 (case sc_args serverConfig of None \<Rightarrow> [] | Some as \<Rightarrow> as),
               param_env = foldl (\<lambda>m (k, v). AList.update k v m) (processEnv e)
                 (case sc_env serverConfig of None \<Rightarrow> [] | Some kvs \<Rightarrow> kvs)\<rparr>))"

text \<open>\<^verbatim>\<open>createSSETransport\<close>, lines 197-199; \<^verbatim>\<open>new URL\<close> may throw.\<close>

definition createSSETransport :: "env \<Rightarrow> string \<Rightarrow> thrown + transport" where
  "createSSETransport e url =
     (case newURL e url of Inl err \<Rightarrow> Inl err | Inr u \<Rightarrow> Inr (SSEClientTransport u))"

text \<open>
  \<^verbatim>\<open>connectToServer\<close>, lines 121-149: build the transport, connect a client over it,
  and only then register both under the server's name.
\<close>

definition connectToServer :: "env \<Rightarrow> MCPClient \<Rightarrow> ServerConfig \<Rightarrow> thrown + MCPClient" where
  "connectToServer e c serverConfig =
     (case
        (case sc_type serverConfig of
           command \<Rightarrow> createCommandTransport e serverConfig
         | sse \<Rightarrow>
             (case sc_url serverConfig of
                Some url \<Rightarrow>
                  if url \<noteq> [] then createSSETransport e url
                  else Inl (ErrorObj ''Error''
                    (''Invalid or unsupported server configuration type for: ''
                       @ sc_name serverConfig))
              | None \<Rightarrow>
                  Inl (ErrorObj ''Error''
                    (''Invalid or unsupported server configuration type for: ''
                       @ sc_name serverConfig))))
      of
        Inl err \<Rightarrow> Inl err
      | Inr transport \<Rightarrow>
          (case clientConnect e transport of
             Inl err \<Rightarrow> Inl err
           | Inr client \<Rightarrow>
               Inr (c\<lparr>sessions := AList.update (sc_name serverConfig) client (sessions c),
                      transports := AList.update (sc_name serverConfig) transport (transports c)\<rparr>)))"

text \<open>
  \<^verbatim>\<open>connectToAllServers\<close>, lines 582-597. The loop carries the client, the names
  connected so far and what \<^verbatim>\<open>console.error\<close> was given: the name of each server that
  failed, with the formatted error.
\<close>

fun connectLoop ::
  "env \<Rightarrow> ServerConfig list \<Rightarrow> MCPClient \<Rightarrow> string list \<Rightarrow> (string \<times> string) list
   \<Rightarrow> MCPClient \<times> string list \<times> (string \<times> string) list" where
  "connectLoop e [] c connectedServers logged = (c, connectedServers, logged)"
| "connectLoop e (serverConfig # rest) c connectedServers logged =
     (case connectToServer e c serverConfig of
        Inr c' \<Rightarrow> connectLoop e rest c' (connectedServers @ [sc_name serverConfig]) logged
      | Inl err \<Rightarrow>
          connectLoop e rest c connectedServers
            (logged @ [(sc_name serverConfig, formatErrorMessage err)]))"

definition connectToAllServers ::
  "env \<Rightarrow> ServerConfig list \<Rightarrow> MCPClient
   \<Rightarrow> MCPClient \<times> string list \<times> (string \<times> string) list" where
  "connectToAllServers e config c = connectLoop e (filter sc_isOpen config) c [] []"

subsection \<open>Closing\<close>

text \<open>
  \<^verbatim>\<open>cleanup\<close>, lines 562-568. The loop awaits each \<^verbatim>\<open>close()\<close> in turn, outside any
  \<^verbatim>\<open>try\<close>: a close that throws ends the loop and the method, before the two
  \<^verbatim>\<open>clear()\<close> calls. The second component of the loop's result lists the transports
  whose \<^verbatim>\<open>close()\<close> has returned.
\<close>

fun closeTransports ::
  "env \<Rightarrow> transport list \<Rightarrow> transport list \<Rightarrow> thrown option \<times> transport list" where
  "closeTransports e [] closed = (None, closed)"
| "closeTransports e (t # ts) closed =
     (case transportClose e t of
        Some err \<Rightarrow> (Some err, closed)
      | None \<Rightarrow> closeTransports e ts (closed @ [t]))"

definition cleanup :: "env \<Rightarrow> MCPClient \<Rightarrow> thrown option \<times> MCPClient \<times> transport list" where
  "cleanup e c =
     (case closeTransports e (map snd (transports c)) [] of
        (Some err, closed) \<Rightarrow> (Some err, c, closed)
      | (None, closed) \<Rightarrow> (None, c\<lparr>transports := [], sessions := []\<rparr>, closed))"

subsection \<open>Tool discovery and the model call\<close>

text \<open>\<^verbatim>\<open>_getAvailableToolsFormatted\<close>, lines 284-308.\<close>

definition formatTool :: "string \<Rightarrow> toolInfo \<Rightarrow> OpenAITool" where
  "formatTool serverName t =
     \<lparr>tool_name = serverName @ ''__'' @ info_name t,
      tool_description =
        ''['' @ serverName @ ''] '' @ (case info_description t of None \<Rightarrow> [] | Some d \<Rightarrow> d),
      tool_parameters = jsOr (info_inputSchema t) (JObj [])\<rparr>"

definition getAvailableToolsFormatted :: "MCPClient \<Rightarrow> OpenAITool list" where
  "getAvailableToolsFormatted c =
     concat (map (\<lambda>(serverName, s).
       case listTools s of
         Inl err \<Rightarrow> []
       | Inr tools \<Rightarrow> map (formatTool serverName) tools) (sessions c))"

definition systemPrompt :: Message where
  "systemPrompt =
     \<lparr>msg_role = system,
      msg_content = Some (''You are a helpful assistant that can use various tools to help users. ''
        @ ''Please analyze the user's request and use appropriate tools to fulfill it.''),
      msg_tool_calls = None, msg_tool_call_id = None, msg_name = None\<rparr>"

text \<open>
  \<^verbatim>\<open>_callAIForProcessing\<close>, lines 318-361. The result comes with the request given to
  the API client, so that a caller's list of requests records every model call it made.
  The tool catalog and \<^verbatim>\<open>tool_choice\<close> are part of the request only when a non-empty
  catalog was passed. Every failure leaves as an \<^verbatim>\<open>Error\<close> whose message starts with
  \<^verbatim>\<open>AI API call failed\<close>.
\<close>

definition callAIForProcessing ::
  "env \<Rightarrow> Message list \<Rightarrow> OpenAITool list option
   \<Rightarrow> (thrown + Message) \<times> (Message list \<times> apiOptions) list" where
  "callAIForProcessing e messages tools =
     (let apiOptions =
            (case tools of
               None \<Rightarrow> \<lparr>opt_model = ''deepseek-chat'', opt_tools = None, opt_tool_choice = None\<rparr>
             | Some ts \<Rightarrow>
                 if ts \<noteq> [] then
                   \<lparr>opt_model = ''deepseek-chat'', opt_tools = Some ts,
                    opt_tool_choice = Some ''auto''\<rparr>
                 else \<lparr>opt_model = ''deepseek-chat'', opt_tools = None, opt_tool_choice = None\<rparr>);
          request = (systemPrompt # messages, apiOptions)
      in
        (case callOpenAIChatCompletion e (fst request) (snd request) of
           Inl (ErrorObj n m) \<Rightarrow> Inl (ErrorObj ''Error'' (''AI API call failed: '' @ m))
         | Inl (Thrown (JStr s)) \<Rightarrow> Inl (ErrorObj ''Error'' (''AI API call failed: '' @ s))
         | Inl (Thrown v) \<Rightarrow> Inl (ErrorObj ''Error'' ''AI API call failed with an unknown error'')
         | Inr response \<Rightarrow>
             (case (if resp_success response then resp_choices response else None) of
                Some (choice # others) \<Rightarrow> Inr choice
              | _ \<Rightarrow>
                  Inl (ErrorObj ''Error'' (''AI API call failed: '' @
                    (case resp_error response of
                       None \<Rightarrow> ''AI API call failed or returned invalid response''
                     | Some err \<Rightarrow>
                         if err \<noteq> [] then err
                         else ''AI API call failed or returned invalid response'')))),
         [request]))"

subsection \<open>Tool dispatch\<close>

text \<open>
  Lines 255-259 and again 265-269: a raw content is shown as it is when it is a string,
  pretty-printed when it is an object, and not at all otherwise.
\<close>

definition rawContentLines :: "env \<Rightarrow> jsval \<Rightarrow> string list" where
  "rawContentLines e content =
     (case content of
        JStr s \<Rightarrow> [s]
      | _ \<Rightarrow> if truthy content \<and> typeof content = TObject
             then [jsonStringifyPretty e content] else [])"

text \<open>
  \<^verbatim>\<open>processToolResponse\<close>, lines 214-277. With a response handler, its result is
  validated and gives a line only when it has no message but a raw content; a handler that
  throws gives an error line. The loop over \<^verbatim>\<open>paths\<close> (lines 238-242) does nothing, and
  the inner \<^verbatim>\<open>catch\<close> (lines 252-260) guards \<^const>\<open>validateToolResponse\<close>, which does not
  throw.
\<close>

definition processToolResponse :: "env \<Rightarrow> MCPClient \<Rightarrow> string \<Rightarrow> jsval \<Rightarrow> string list" where
  "processToolResponse e c toolFullName content =
     (case (case getToolConfig c toolFullName of
              None \<Rightarrow> None
            | Some config \<Rightarrow> tc_responseHandler config) of
        None \<Rightarrow> rawContentLines e content
      | Some responseHandler \<Rightarrow>
          (case responseHandler content of
             Inl err \<Rightarrow>
               [''[Error processing '' @ toolFullName @ '': '' @ thrownToString e err @ '']'']
           | Inr handlerResponse0 \<Rightarrow>
               (let handlerResponse = validateToolResponse handlerResponse0 in
                  if \<not> truthy (getProp handlerResponse ''message'')
                     \<and> truthy (getProp handlerResponse ''rawContent'') then
                    (case getProp handlerResponse ''rawContent'' of
                       JStr s \<Rightarrow> [take 100 s @ ''...'']
                     | rawContent \<Rightarrow>
                         if truthy rawContent \<and> typeof rawContent = TObject
                         then [''Processing successful, structured data obtained'']
                         else [])
                  else [])))"

text \<open>
  Line 375, \<^verbatim>\<open>const [serverName, toolName] = toolFullName.split('__')\<close>: the first
  piece of the identifier, and the second when there is one.
\<close>

definition serverNameOf :: "string \<Rightarrow> string" where
  "serverNameOf toolFullName =
     (case splitUnderscores [] toolFullName of [] \<Rightarrow> [] | s # rest \<Rightarrow> s)"

definition toolNameOf :: "string \<Rightarrow> string option" where
  "toolNameOf toolFullName =
     (case splitUnderscores [] toolFullName of s # t # rest \<Rightarrow> Some t | _ \<Rightarrow> None)"

text \<open>Lines 440-447.\<close>

fun errorDetailOf :: "thrown \<Rightarrow> string" where
  "errorDetailOf (ErrorObj n m) = m"
| "errorDetailOf (Thrown (JStr s)) = s"
| "errorDetailOf (Thrown v) = ''An unknown error occurred''"

text \<open>The message of role \<^verbatim>\<open>tool\<close> built at lines 428-433 and 460-465.\<close>

definition toolMessage :: "string \<Rightarrow> string \<Rightarrow> string \<Rightarrow> Message" where
  "toolMessage toolCallId toolFullName content =
     \<lparr>msg_role = tool, msg_content = Some content, msg_tool_calls = None,
      msg_tool_call_id = Some toolCallId, msg_name = Some toolFullName\<rparr>"

text \<open>
  \<^verbatim>\<open>_executeAndProcessToolCall\<close>, lines 370-470; the result is
  \<^verbatim>\<open>{outputMessages, messageForAI}\<close>. The two early returns (no session, lines 386-390;
  arguments that do not parse, lines 395-401) come before any decision about the model.
  The decision is then written out twice in the source, once after the call returned
  (lines 421-424) and once in the \<^verbatim>\<open>catch\<close> (lines 454-457), and so it is here.
\<close>

definition executeAndProcessToolCall ::
  "env \<Rightarrow> MCPClient \<Rightarrow> toolCall \<Rightarrow> string list \<times> Message option" where
  "executeAndProcessToolCall e c toolCall =
     (let toolFullName = fn_name (call_function toolCall);
          serverName = serverNameOf toolFullName;
          toolName = toolNameOf toolFullName;
          toolCallId = call_id toolCall;
          specificToolConfig = getToolConfig c toolFullName;
          serverConfig = map_of (serverConfigs c) serverName
      in
        case map_of (sessions c) serverName of
          None \<Rightarrow> ([''[Error: Server '' @ serverName @ '' not found]''], None)
        | Some session \<Rightarrow>
            (case jsonParse e (fn_arguments (call_function toolCall)) of
               None \<Rightarrow> ([''[Error: Invalid arguments for '' @ toolFullName @ '']''], None)
             | Some toolArgs \<Rightarrow>
                 (case callTool session toolName toolArgs of
                    Inr content \<Rightarrow>
                      (let contentStringForAI = jsonStringify e content;
                           outputMessages = processToolResponse e c toolFullName content;
                           shouldSendToAI =
                             (case serverConfig of
                                None \<Rightarrow> False
                              | Some cfg \<Rightarrow>
                                  (case sc_sendResultToAI cfg of None \<Rightarrow> False | Some b \<Rightarrow> b));
                           shouldSendToAI =
                             (case specificToolConfig of
                                None \<Rightarrow> shouldSendToAI
                              | Some cfg \<Rightarrow>
                                  (case tc_sendResultToAI cfg of
                                     None \<Rightarrow> shouldSendToAI
                                   | Some b \<Rightarrow> b))
                       in (outputMessages,
                           if shouldSendToAI
                           then Some (toolMessage toolCallId toolFullName contentStringForAI)
                           else None))
                  | Inl error \<Rightarrow>
                      (let errorMessage =
                             ''[Error executing '' @ toolFullName @ '': ''
                               @ errorDetailOf error @ '']'';
                           shouldSendErrorToAI =
                             (case serverConfig of
                                None \<Rightarrow> False
                              | Some cfg \<Rightarrow>
                                  (case sc_sendResultToAI cfg of None \<Rightarrow> False | Some b \<Rightarrow> b));
                           shouldSendErrorToAI =
                             (case specificToolConfig of
                                None \<Rightarrow> shouldSendErrorToAI
                              | Some cfg \<Rightarrow>
                                  (case tc_sendResultToAI cfg of
                                     None \<Rightarrow> shouldSendErrorToAI
                                   | Some b \<Rightarrow> b))
                       in ([errorMessage],
                           if shouldSendErrorToAI
                           then Some (toolMessage toolCallId toolFullName
                                  (jsonStringify e (JObj [(''error'', JStr errorMessage)])))
                           else None)))))"

subsection \<open>Processing a query\<close>

text \<open>
  Lines 513-518: \<^verbatim>\<open>Promise.all\<close> over the tool calls of one model turn keeps the order of
  the requests, and no call throws, so the fan-out and fan-in is a \<open>map\<close>. Lines 521-526
  then collect the output lines of every result and the messages of those that have one.
\<close>

definition dispatch ::
  "env \<Rightarrow> MCPClient \<Rightarrow> toolCall list \<Rightarrow> (string list \<times> Message option) list" where
  "dispatch e c tool_calls = map (executeAndProcessToolCall e c) tool_calls"

definition outputLines :: "(string list \<times> Message option) list \<Rightarrow> string list" where
  "outputLines toolExecutionResults = concat (map fst toolExecutionResults)"

definition messagesForAI :: "(string list \<times> Message option) list \<Rightarrow> Message list" where
  "messagesForAI toolExecutionResults =
     concat (map (\<lambda>result. case snd result of None \<Rightarrow> [] | Some m \<Rightarrow> [m])
       toolExecutionResults)"

text \<open>Lines 481-486.\<close>

definition userMessage :: "string \<Rightarrow> Message" where
  "userMessage query =
     \<lparr>msg_role = user, msg_content = Some query, msg_tool_calls = None,
      msg_tool_call_id = None, msg_name = None\<rparr>"

text \<open>
  \<^verbatim>\<open>processQuery\<close>, lines 475-556. The first component is what the method gives back:
  the error it throws when no server is connected, or its result. The second is the list
  of requests made to the model, in order. A failed model call is caught at lines 546-555
  and ends the trace with its message.
\<close>

definition processQuery ::
  "env \<Rightarrow> MCPClient \<Rightarrow> string
   \<Rightarrow> (thrown + ProcessQueryResult) \<times> (Message list \<times> apiOptions) list" where
  "processQuery e c query =
     (if sessions c = [] then (Inl (ErrorObj ''Error'' ''Not connected to any server''), [])
      else
        let messages = [userMessage query];
            availableTools = getAvailableToolsFormatted c
        in
          case callAIForProcessing e messages (Some availableTools) of
            (Inl error, requests1) \<Rightarrow>
              (Inr \<lparr>fullOutput =
                      joinLines [''Error processing query: '' @ formatErrorMessage error],
                    finalAiResponse = None\<rparr>,
               requests1)
          | (Inr firstAiMessage, requests1) \<Rightarrow>
              (let messages = messages @ [firstAiMessage];
                   finalOutputText =
                     (case msg_content firstAiMessage of
                        None \<Rightarrow> []
                      | Some content \<Rightarrow>
                          if content \<noteq> [] \<and> msg_tool_calls firstAiMessage = None
                          then [content] else [])
               in
                 case msg_tool_calls firstAiMessage of
                   None \<Rightarrow>
                     (Inr \<lparr>fullOutput = joinLines finalOutputText, finalAiResponse = None\<rparr>,
                      requests1)
                 | Some tool_calls \<Rightarrow>
                     (let toolExecutionResults = dispatch e c tool_calls;
                          finalOutputText = finalOutputText @ outputLines toolExecutionResults;
                          toolMessagesForAI = messagesForAI toolExecutionResults
                      in
                        if toolMessagesForAI \<noteq> [] then
                          (case callAIForProcessing e (messages @ toolMessagesForAI) None of
                             (Inl error, requests2) \<Rightarrow>
                               (Inr \<lparr>fullOutput = joinLines (finalOutputText @
                                       [''Error processing query: ''
                                          @ formatErrorMessage error]),
                                     finalAiResponse = None\<rparr>,
                                requests1 @ requests2)
                           | (Inr secondAiMessage, requests2) \<Rightarrow>
                               (case msg_content secondAiMessage of
                                  None \<Rightarrow>
                                    (Inr \<lparr>fullOutput = joinLines finalOutputText,
                                          finalAiResponse = None\<rparr>,
                                     requests1 @ requests2)
                                | Some content \<Rightarrow>
                                    if content \<noteq> [] then
                                      (Inr \<lparr>fullOutput = joinLines (finalOutputText @
                                              [CHR 0x0A # ''[AI Summary]:'', content]),
                                            finalAiResponse = Some content\<rparr>,
                                       requests1 @ requests2)
                                    else
                                      (Inr \<lparr>fullOutput = joinLines finalOutputText,
                                            finalAiResponse = None\<rparr>,
                                       requests1 @ requests2)))
                        else
                          (Inr \<lparr>fullOutput = joinLines finalOutputText,
                                finalAiResponse = None\<rparr>,
                           requests1))))"

section \<open>The resolution of \<^verbatim>\<open>sendResultToAI\<close> as specified\<close>

text \<open>
  The precedence in the words of the specification, over the two loaded tables: the
  tool's own policy when its \<^verbatim>\<open>sendResultToAI\<close> is set; otherwise the default of the
  owning server, the server named by the first piece of the identifier, when set;
  otherwise \<open>False\<close>.
\<close>

definition resolveSendToAI ::
  "(string \<times> ToolConfig) list \<Rightarrow> (string \<times> ServerConfig) list \<Rightarrow> string \<Rightarrow> bool" where
  "resolveSendToAI toolTable serverTable toolId =
     (case Option.bind (map_of toolTable toolId) tc_sendResultToAI of
        Some b \<Rightarrow> b
      | None \<Rightarrow>
          (case Option.bind (map_of serverTable (serverNameOf toolId)) sc_sendResultToAI of
             Some b \<Rightarrow> b
           | None \<Rightarrow> False))"

section \<open>Auxiliary notions for the statements\<close>

text \<open>
  Whether an attempt to connect succeeds: it depends on the descriptor and on the outside
  world only, not on the registry (lemma \<open>connectToServer_connects\<close> below), so it is
  read off an attempt from the empty registry.
\<close>

definition connects :: "env \<Rightarrow> ServerConfig \<Rightarrow> bool" where
  "connects e serverConfig =
     (case connectToServer e (newMCPClient []) serverConfig of
        Inl err \<Rightarrow> False
      | Inr c \<Rightarrow> True)"

text \<open>
  What the second model call adds to a query, by its outcome (lines 531-539 when it
  returns, lines 546-555 when it fails): the lines appended to the trace, and the final
  response.
\<close>

fun summaryLines :: "thrown + Message \<Rightarrow> string list" where
  "summaryLines (Inl err) = [''Error processing query: '' @ formatErrorMessage err]"
| "summaryLines (Inr secondAiMessage) =
     (case msg_content secondAiMessage of
        None \<Rightarrow> []
      | Some content \<Rightarrow>
          if content \<noteq> [] then [CHR 0x0A # ''[AI Summary]:'', content] else [])"

fun summaryOf :: "thrown + Message \<Rightarrow> string option" where
  "summaryOf (Inl err) = None"
| "summaryOf (Inr secondAiMessage) =
     (case msg_content secondAiMessage of
        None \<Rightarrow> None
      | Some content \<Rightarrow> if content \<noteq> [] then Some content else None)"

section \<open>A small fleet to run the definitions on\<close>

text \<open>
  Four descriptors, three of them open: \<open>files\<close> (sends results to the model by default),
  \<open>db\<close> (its command is missing, so connecting fails) and \<open>web\<close> (no default); \<open>off\<close>
  is closed.
\<close>

definition demoConfig :: "ServerConfig list" where
  "demoConfig =
     [\<lparr>sc_name = ''files'', sc_type = command, sc_command = Some ''node'',
       sc_args = Some [''~/srv/files.js''], sc_env = Some [(''MODE'', ''ro'')], sc_url = None,
       sc_isOpen = True, sc_sendResultToAI = Some True\<rparr>,
      \<lparr>sc_name = ''db'', sc_type = command, sc_command = None,
       sc_args = None, sc_env = None, sc_url = None,
       sc_isOpen = True, sc_sendResultToAI = None\<rparr>,
      \<lparr>sc_name = ''web'', sc_type = sse, sc_command = None,
       sc_args = None, sc_env = None, sc_url = Some ''http://localhost:3000/sse'',
       sc_isOpen = True, sc_sendResultToAI = None\<rparr>,
      \<lparr>sc_name = ''off'', sc_type = command, sc_command = Some ''node'',
       sc_args = None, sc_env = None, sc_url = None,
       sc_isOpen = False, sc_sendResultToAI = None\<rparr>]"

text \<open>
  Tool policies: \<open>files__read\<close> is not sent to the model although its server's default
  says so; \<open>db__query\<close> is to be sent.
\<close>

definition demoToolConfigs :: "(string \<times> ToolConfig) list" where
  "demoToolConfigs =
     [(''files__read'',
       \<lparr>tc_name = ''read'', tc_description = None, tc_systemPrompt = None,
        tc_responseHandler = None, tc_saveOutput = Some True, tc_sendResultToAI = Some False\<rparr>),
      (''db__query'',
       \<lparr>tc_name = ''query'', tc_description = None, tc_systemPrompt = None,
        tc_responseHandler = None, tc_saveOutput = None, tc_sendResultToAI = Some True\<rparr>)]"

text \<open>A server whose tools \<open>read\<close> and \<open>list\<close> answer and whose other tools fail.\<close>

definition demoSession :: session where
  "demoSession =
     \<lparr>listTools = Inr [\<lparr>info_name = ''read'', info_description = Some ''Read a file'',
                         info_inputSchema = JObj []\<rparr>],
      callTool = (\<lambda>toolName toolArgs.
        if toolName = Some ''read'' then Inr (JStr ''hello'')
        else if toolName = Some ''list'' then Inr (JStr ''a.txt'')
        else Inl (ErrorObj ''Error'' ''no such tool''))\<rparr>"

definition demoStdio :: transport where
  "demoStdio =
     StdioClientTransport
       \<lparr>param_command = ''node'', param_args = [''/home/u/srv/files.js''],
        param_env = [(''PATH'', ''/bin''), (''MODE'', ''ro'')]\<rparr>"

text \<open>
  The outside world, but for the model: the JSON functions are given on the values the
  examples use (strings without characters to escape), every connection succeeds, and
  closing a spawned process fails while closing an event stream succeeds.
\<close>

definition demoEnv ::
  "(Message list \<Rightarrow> apiOptions \<Rightarrow> thrown + ApiResponse) \<Rightarrow> env" where
  "demoEnv api =
     \<lparr>jsonParse = (\<lambda>s. if s = ''{}'' then Some (JObj []) else None),
      jsonStringify = (\<lambda>v.
        case v of
          JStr s \<Rightarrow> [CHR 0x22] @ s @ [CHR 0x22]
        | JObj [(k, JStr s)] \<Rightarrow>
            ''{'' @ [CHR 0x22] @ k @ [CHR 0x22] @ '':'' @ [CHR 0x22] @ s @ [CHR 0x22] @ ''}''
        | _ \<Rightarrow> ''{}''),
      jsonStringifyPretty = (\<lambda>v. ''{}''),
      thrownToString = (\<lambda>t. case t of ErrorObj n m \<Rightarrow> n @ '': '' @ m | Thrown v \<Rightarrow> ''?''),
      homedir = ''/home/u'',
      processEnv = [(''PATH'', ''/bin'')],
      newURL = (\<lambda>url. Inr url),
      clientConnect = (\<lambda>t. Inr demoSession),
      transportClose = (\<lambda>t.
        case t of
          StdioClientTransport p \<Rightarrow> Some (ErrorObj ''Error'' ''EPIPE'')
        | SSEClientTransport u \<Rightarrow> None),
      callOpenAIChatCompletion = api\<rparr>"

text \<open>The client once \<open>files\<close> and \<open>web\<close> are connected.\<close>

definition demoClient :: MCPClient where
  "demoClient =
     \<lparr>sessions = [(''files'', demoSession), (''web'', demoSession)],
      transports = [(''files'', demoStdio),
                    (''web'', SSEClientTransport ''http://localhost:3000/sse'')],
      toolConfigs = demoToolConfigs,
      serverConfigs = map (\<lambda>cfg. (sc_name cfg, cfg)) demoConfig\<rparr>"

definition demoCall :: "string \<Rightarrow> string \<Rightarrow> string \<Rightarrow> toolCall" where
  "demoCall callId toolFullName arguments =
     \<lparr>call_id = callId,
      call_function = \<lparr>fn_name = toolFullName, fn_arguments = arguments\<rparr>\<rparr>"

definition assistantMessage :: "string option \<Rightarrow> toolCall list option \<Rightarrow> Message" where
  "assistantMessage content tool_calls =
     \<lparr>msg_role = assistant, msg_content = content, msg_tool_calls = tool_calls,
      msg_tool_call_id = None, msg_name = None\<rparr>"

text \<open>
  Three models. The first answers directly, with an empty array of tool calls. The second
  answers directly and leaves the tool calls out. The third asks for tools as long as it
  is offered a catalog and otherwise sums up: it calls \<open>files__list\<close> (sent to the model
  by the server's default), \<open>files__read\<close> (not sent), \<open>files__write\<close> (the server
  fails) and, with some text of its own, \<open>db__query\<close> on the server that is not
  connected.
\<close>

definition emptyCallsApi :: "Message list \<Rightarrow> apiOptions \<Rightarrow> thrown + ApiResponse" where
  "emptyCallsApi messages options =
     Inr \<lparr>resp_success = True,
          resp_choices = Some [assistantMessage (Some ''Paris is the capital of France.'') (Some [])],
          resp_error = None\<rparr>"

definition directApi :: "Message list \<Rightarrow> apiOptions \<Rightarrow> thrown + ApiResponse" where
  "directApi messages options =
     Inr \<lparr>resp_success = True,
          resp_choices = Some [assistantMessage (Some ''Paris is the capital of France.'') None],
          resp_error = None\<rparr>"

definition demoCalls :: "toolCall list" where
  "demoCalls =
     [demoCall ''c1'' ''files__list'' ''{}'',
      demoCall ''c2'' ''files__read'' ''{}'',
      demoCall ''c3'' ''files__write'' ''{}'',
      demoCall ''c4'' ''db__query'' ''{}'']"

definition toolsApi :: "Message list \<Rightarrow> apiOptions \<Rightarrow> thrown + ApiResponse" where
  "toolsApi messages options =
     (if opt_tools options = None then
        Inr \<lparr>resp_success = True,
             resp_choices = Some [assistantMessage (Some ''Summary: one file.'') None],
             resp_error = None\<rparr>
      else
        Inr \<lparr>resp_success = True,
             resp_choices = Some [assistantMessage (Some ''Let me look.'') (Some demoCalls)],
             resp_error = None\<rparr>)"

section \<open>Validation of tool responses\<close>

lemma getProp_toolResponse:
  "getProp (toolResponse m p r) ''message'' = m"
  "getProp (toolResponse m p r) ''paths'' = p"
  "getProp (toolResponse m p r) ''rawContent'' = r"
  "truthy (toolResponse m p r)"
  "typeof (toolResponse m p r) = TObject"
  by (simp_all add: toolResponse_def)

lemma typeof_String: "typeof v = TString \<Longrightarrow> truthy v \<or> v = JStr ''''"
  by (cases v) auto

text \<open>
  What the two functions of utils.ts compute together on an object: the second defaulting
  with \<^verbatim>\<open>||\<close> changes nothing for the message and the paths, but turns every falsy raw
  content into \<^verbatim>\<open>null\<close>.
\<close>

lemma validateToolResponse_object:
  "truthy x \<Longrightarrow> typeof x = TObject \<Longrightarrow>
   validateToolResponse x =
     toolResponse
       (if typeof (getProp x ''message'') = TString then getProp x ''message'' else JStr '''')
       (if truthy (getProp x ''paths'') \<and> typeof (getProp x ''paths'') = TObject
        then getProp x ''paths'' else JObj [])
       (if truthy (getProp x ''rawContent'') then getProp x ''rawContent'' else JNull)"
  using typeof_String [of "getProp x ''message''"]
  by (auto simp add: validateToolResponse_def createToolResponse_def jsOr_def
      getProp_toolResponse)

lemma validateToolResponse_invalid:
  "\<not> truthy x \<or> typeof x \<noteq> TObject \<Longrightarrow>
   validateToolResponse x = toolResponse (JStr invalidResponseMessage) (JObj []) JNull"
  by (auto simp add: validateToolResponse_def createToolResponse_def jsOr_def
      toolResponse_def invalidResponseMessage_def)

lemma conforms_validateToolResponse: "conforms (validateToolResponse x)"
proof (cases "truthy x \<and> typeof x = TObject")
  case True
  then show ?thesis
    by (auto simp add: validateToolResponse_object conforms_def getProp_toolResponse)
next
  case False
  then have "validateToolResponse x = toolResponse (JStr invalidResponseMessage) (JObj []) JNull"
    by (intro validateToolResponse_invalid) auto
  then show ?thesis
    by (simp add: conforms_def getProp_toolResponse)
qed

text \<open>Validating twice is validating once, for every input.\<close>

lemma validateToolResponse_idem:
  "validateToolResponse (validateToolResponse x) = validateToolResponse x"
proof (cases "truthy x \<and> typeof x = TObject")
  case True
  then show ?thesis
    using typeof_String [of "getProp x ''message''"]
    by (auto simp add: validateToolResponse_object getProp_toolResponse)
next
  case False
  then have "validateToolResponse x = toolResponse (JStr invalidResponseMessage) (JObj []) JNull"
    by (intro validateToolResponse_invalid) auto
  then show ?thesis
    by (simp add: validateToolResponse_object getProp_toolResponse invalidResponseMessage_def)
qed

text \<open>
  C3, as stated, fails: \<^verbatim>\<open>null\<close> is not given the empty message of the defaults but the
  fixed message of utils.ts line 40.
\<close>

theorem validateToolResponse_null_counterexample:
  "validateToolResponse JNull
     \<noteq> JObj [(''message'', JStr ''''), (''paths'', JObj []), (''rawContent'', JNull)]"
  by (simp add: validateToolResponse_def createToolResponse_def jsOr_def toolResponse_def
      invalidResponseMessage_def)

text \<open>
  C3, amended. \<^const>\<open>validateToolResponse\<close> rejects nothing: its result always has the
  shape of a normalized response. A value that is falsy or not an object gives the response
  with the fixed "invalid tool response" message, empty paths and a null raw content.
  Every object (or array) gives the defaults \<^verbatim>\<open>{message: "", paths: {}, rawContent: null}\<close>
  overridden by its own message when that is a string and by its own paths when that is a
  non-null object, whatever its raw content; the raw content of the result is the object's
  own when that is truthy, and \<^verbatim>\<open>null\<close> when it is null or missing.
\<close>

theorem validateToolResponse_coerces:
  "conforms (validateToolResponse x)
   \<and> (\<not> truthy x \<or> typeof x \<noteq> TObject \<longrightarrow>
        validateToolResponse x = toolResponse (JStr invalidResponseMessage) (JObj []) JNull)
   \<and> (truthy x \<and> typeof x = TObject \<longrightarrow>
        (\<exists>r. validateToolResponse x =
               toolResponse
                 (if typeof (getProp x ''message'') = TString
                  then getProp x ''message'' else JStr '''')
                 (if truthy (getProp x ''paths'') \<and> typeof (getProp x ''paths'') = TObject
                  then getProp x ''paths'' else JObj [])
                 r
           \<and> (truthy (getProp x ''rawContent'') \<longrightarrow> r = getProp x ''rawContent'')
           \<and> (getProp x ''rawContent'' = JUndefined \<or> getProp x ''rawContent'' = JNull
                \<longrightarrow> r = JNull)))
   \<and> (truthy x \<and> typeof x = TObject
        \<and> (truthy (getProp x ''rawContent'') \<or> getProp x ''rawContent'' = JUndefined
             \<or> getProp x ''rawContent'' = JNull) \<longrightarrow>
        validateToolResponse x = specCoerce x)"
proof (intro conjI impI)
  show "conforms (validateToolResponse x)"
    by (rule conforms_validateToolResponse)
next
  assume "\<not> truthy x \<or> typeof x \<noteq> TObject"
  then show "validateToolResponse x = toolResponse (JStr invalidResponseMessage) (JObj []) JNull"
    by (rule validateToolResponse_invalid)
next
  assume obj: "truthy x \<and> typeof x = TObject"
  let ?r = "if truthy (getProp x ''rawContent'') then getProp x ''rawContent'' else JNull"
  have "validateToolResponse x =
          toolResponse
            (if typeof (getProp x ''message'') = TString
             then getProp x ''message'' else JStr '''')
            (if truthy (getProp x ''paths'') \<and> typeof (getProp x ''paths'') = TObject
             then getProp x ''paths'' else JObj [])
            ?r"
    using obj by (simp add: validateToolResponse_object)
  moreover have "truthy (getProp x ''rawContent'') \<longrightarrow> ?r = getProp x ''rawContent''"
    by simp
  moreover have "getProp x ''rawContent'' = JUndefined \<or> getProp x ''rawContent'' = JNull
      \<longrightarrow> ?r = JNull"
    by auto
  ultimately show "\<exists>r. validateToolResponse x =
               toolResponse
                 (if typeof (getProp x ''message'') = TString
                  then getProp x ''message'' else JStr '''')
                 (if truthy (getProp x ''paths'') \<and> typeof (getProp x ''paths'') = TObject
                  then getProp x ''paths'' else JObj [])
                 r
           \<and> (truthy (getProp x ''rawContent'') \<longrightarrow> r = getProp x ''rawContent'')
           \<and> (getProp x ''rawContent'' = JUndefined \<or> getProp x ''rawContent'' = JNull
                \<longrightarrow> r = JNull)"
    by blast
next
  assume "truthy x \<and> typeof x = TObject
        \<and> (truthy (getProp x ''rawContent'') \<or> getProp x ''rawContent'' = JUndefined
             \<or> getProp x ''rawContent'' = JNull)"
  then show "validateToolResponse x = specCoerce x"
    by (auto simp add: validateToolResponse_object specCoerce_def)
qed

text \<open>
  A number; an object with a wrong message, no paths and a raw content; and an object
  whose raw content is 0, which keeps its message and its paths.
\<close>

theorem validateToolResponse_coerces_witness:
  "validateToolResponse (JNum 5) = toolResponse (JStr invalidResponseMessage) (JObj []) JNull
   \<and> validateToolResponse (JObj [(''message'', JNum 1), (''rawContent'', JStr ''abc'')])
       = toolResponse (JStr '''') (JObj []) (JStr ''abc'')
   \<and> getProp (validateToolResponse
         (JObj [(''message'', JStr ''saved''), (''paths'', JObj [(''txt'', JStr ''/out/a.txt'')]),
                (''rawContent'', JNum 0)])) ''message'' = JStr ''saved''
   \<and> getProp (validateToolResponse
         (JObj [(''message'', JStr ''saved''), (''paths'', JObj [(''txt'', JStr ''/out/a.txt'')]),
                (''rawContent'', JNum 0)])) ''paths'' = JObj [(''txt'', JStr ''/out/a.txt'')]
   \<and> conforms (validateToolResponse (JNum 5))"
proof -
  note a = validateToolResponse_coerces [of "JNum 5"]
  note b = validateToolResponse_coerces
    [of "JObj [(''message'', JNum 1), (''rawContent'', JStr ''abc'')]"]
  note c = validateToolResponse_coerces
    [of "JObj [(''message'', JStr ''saved''), (''paths'', JObj [(''txt'', JStr ''/out/a.txt'')]),
               (''rawContent'', JNum 0)]"]
  from a have 1: "validateToolResponse (JNum 5)
      = toolResponse (JStr invalidResponseMessage) (JObj []) JNull"
    by simp
  from a have 5: "conforms (validateToolResponse (JNum 5))"
    by blast
  from b have 2: "validateToolResponse (JObj [(''message'', JNum 1), (''rawContent'', JStr ''abc'')])
       = toolResponse (JStr '''') (JObj []) (JStr ''abc'')"
    by (simp add: specCoerce_def)
  from c obtain r where "validateToolResponse
         (JObj [(''message'', JStr ''saved''), (''paths'', JObj [(''txt'', JStr ''/out/a.txt'')]),
                (''rawContent'', JNum 0)])
       = toolResponse (JStr ''saved'') (JObj [(''txt'', JStr ''/out/a.txt'')]) r"
    by auto
  then have 3: "getProp (validateToolResponse
         (JObj [(''message'', JStr ''saved''), (''paths'', JObj [(''txt'', JStr ''/out/a.txt'')]),
                (''rawContent'', JNum 0)])) ''message'' = JStr ''saved''"
    and 4: "getProp (validateToolResponse
         (JObj [(''message'', JStr ''saved''), (''paths'', JObj [(''txt'', JStr ''/out/a.txt'')]),
                (''rawContent'', JNum 0)])) ''paths'' = JObj [(''txt'', JStr ''/out/a.txt'')]"
    by (simp_all add: getProp_toolResponse)
  from 1 2 3 4 5 show ?thesis by (simp only: simp_thms)
qed

text \<open>
  C4: a response of the normalized shape is not always returned unchanged. A raw content
  that is falsy but not \<^verbatim>\<open>null\<close> (0, \<^verbatim>\<open>false\<close>, the empty string, \<open>NaN\<close>) passes
  the test \<^verbatim>\<open>!== undefined\<close> of \<^const>\<open>validateToolResponse\<close> (line 48), and is then
  replaced by \<^verbatim>\<open>null\<close> by the \<^verbatim>\<open>||\<close> of \<^const>\<open>createToolResponse\<close> (line 26).
\<close>

theorem validateToolResponse_drops_falsy_rawContent:
  assumes "\<not> truthy raw" and "raw \<noteq> JNull"
  shows "validateToolResponse (toolResponse m p raw) \<noteq> toolResponse m p raw
         \<and> getProp (validateToolResponse (toolResponse m p raw)) ''rawContent'' = JNull"
  using assms
  by (simp add: validateToolResponse_object getProp_toolResponse) (simp add: toolResponse_def)

text \<open>The response \<^verbatim>\<open>{message: "done", paths: {}, rawContent: 0}\<close> loses its raw content.\<close>

theorem validateToolResponse_drops_falsy_rawContent_witness:
  "conforms (toolResponse (JStr ''done'') (JObj []) (JNum 0))
   \<and> validateToolResponse (toolResponse (JStr ''done'') (JObj []) (JNum 0))
       = toolResponse (JStr ''done'') (JObj []) JNull"
  using validateToolResponse_drops_falsy_rawContent
    [where raw = "JNum 0" and m = "JStr ''done''" and p = "JObj []"]
  by (simp add: validateToolResponse_object getProp_toolResponse conforms_def)

section \<open>Dispatch of one tool call\<close>
lemma execute_no_session:
  "map_of (sessions c) (serverNameOf (fn_name (call_function tc))) = None \<Longrightarrow>
   executeAndProcessToolCall e c tc =
     ([''[Error: Server '' @ serverNameOf (fn_name (call_function tc)) @ '' not found]''], None)"
  by (simp add: executeAndProcessToolCall_def Let_def)

lemma execute_bad_arguments:
  "map_of (sessions c) (serverNameOf (fn_name (call_function tc))) = Some s \<Longrightarrow>
   jsonParse e (fn_arguments (call_function tc)) = None \<Longrightarrow>
   executeAndProcessToolCall e c tc =
     ([''[Error: Invalid arguments for '' @ fn_name (call_function tc) @ '']''], None)"
  by (simp add: executeAndProcessToolCall_def Let_def)

lemma execute_success:
  "map_of (sessions c) (serverNameOf (fn_name (call_function tc))) = Some s \<Longrightarrow>
   jsonParse e (fn_arguments (call_function tc)) = Some toolArgs \<Longrightarrow>
   callTool s (toolNameOf (fn_name (call_function tc))) toolArgs = Inr content \<Longrightarrow>
   executeAndProcessToolCall e c tc =
     (processToolResponse e c (fn_name (call_function tc)) content,
      if resolveSendToAI (toolConfigs c) (serverConfigs c) (fn_name (call_function tc))
      then Some (toolMessage (call_id tc) (fn_name (call_function tc)) (jsonStringify e content))
      else None)"
  by (simp add: executeAndProcessToolCall_def Let_def resolveSendToAI_def getToolConfig_def
      split: option.splits)

lemma execute_error:
  "map_of (sessions c) (serverNameOf (fn_name (call_function tc))) = Some s \<Longrightarrow>
   jsonParse e (fn_arguments (call_function tc)) = Some toolArgs \<Longrightarrow>
   callTool s (toolNameOf (fn_name (call_function tc))) toolArgs = Inl err \<Longrightarrow>
   executeAndProcessToolCall e c tc =
     ([''[Error executing '' @ fn_name (call_function tc) @ '': '' @ errorDetailOf err @ '']''],
      if resolveSendToAI (toolConfigs c) (serverConfigs c) (fn_name (call_function tc))
      then Some (toolMessage (call_id tc) (fn_name (call_function tc))
             (jsonStringify e (JObj [(''error'', JStr
                (''[Error executing '' @ fn_name (call_function tc) @ '': '' @ errorDetailOf err @ '']''))])))
      else None)"
  by (simp add: executeAndProcessToolCall_def Let_def resolveSendToAI_def getToolConfig_def
      split: option.splits)

lemma demo_names:
  "serverNameOf ''files__read'' = ''files''" "toolNameOf ''files__read'' = Some ''read''"
  "serverNameOf ''files__list'' = ''files''" "toolNameOf ''files__list'' = Some ''list''"
  "serverNameOf ''files__write'' = ''files''" "toolNameOf ''files__write'' = Some ''write''"
  "serverNameOf ''db__query'' = ''db''" "toolNameOf ''db__query'' = Some ''query''"
  by (simp_all add: serverNameOf_def toolNameOf_def)

lemma demo_sessions:
  "sessions demoClient \<noteq> []"
  "map_of (sessions demoClient) ''files'' = Some demoSession"
  "map_of (sessions demoClient) ''web'' = Some demoSession"
  "map_of (sessions demoClient) ''db'' = None"
  by (simp_all add: demoClient_def)

lemma demo_resolve:
  "resolveSendToAI (toolConfigs demoClient) (serverConfigs demoClient) ''files__list''"
  "\<not> resolveSendToAI (toolConfigs demoClient) (serverConfigs demoClient) ''files__read''"
  "resolveSendToAI (toolConfigs demoClient) (serverConfigs demoClient) ''files__write''"
  "resolveSendToAI (toolConfigs demoClient) (serverConfigs demoClient) ''db__query''"
  by (simp_all add: resolveSendToAI_def demoClient_def demoToolConfigs_def demoConfig_def
      demo_names)

lemma demo_callTool:
  "callTool demoSession (Some ''list'') a = Inr (JStr ''a.txt'')"
  "callTool demoSession (Some ''read'') a = Inr (JStr ''hello'')"
  "callTool demoSession (Some ''write'') a = Inl (ErrorObj ''Error'' ''no such tool'')"
  by (simp_all add: demoSession_def)

lemma demo_jsonParse: "jsonParse (demoEnv api) ''{}'' = Some (JObj [])"
  by (simp add: demoEnv_def)

lemma demoCall_sel:
  "call_id (demoCall i n a) = i"
  "fn_name (call_function (demoCall i n a)) = n"
  "fn_arguments (call_function (demoCall i n a)) = a"
  by (simp_all add: demoCall_def)

section \<open>The shape of a query\<close>

lemma snd_callAIForProcessing:
  "snd (callAIForProcessing e messages tools) =
     [(systemPrompt # messages,
       (case tools of
          None \<Rightarrow> \<lparr>opt_model = ''deepseek-chat'', opt_tools = None, opt_tool_choice = None\<rparr>
        | Some ts \<Rightarrow>
            if ts \<noteq> [] then
              \<lparr>opt_model = ''deepseek-chat'', opt_tools = Some ts, opt_tool_choice = Some ''auto''\<rparr>
            else \<lparr>opt_model = ''deepseek-chat'', opt_tools = None, opt_tool_choice = None\<rparr>))]"
  by (simp add: callAIForProcessing_def Let_def)

lemma length_snd_callAIForProcessing: "length (snd (callAIForProcessing e messages tools)) = 1"
  by (simp add: snd_callAIForProcessing)

lemma processQuery_first_failed:
  assumes "sessions c \<noteq> []"
    and "fst (callAIForProcessing e [userMessage q] (Some (getAvailableToolsFormatted c))) = Inl err"
  shows "processQuery e c q =
     (Inr \<lparr>fullOutput = ''Error processing query: '' @ formatErrorMessage err,
           finalAiResponse = None\<rparr>,
      snd (callAIForProcessing e [userMessage q] (Some (getAvailableToolsFormatted c))))"
  using assms by (simp add: processQuery_def Let_def case_prod_beta)

lemma processQuery_direct:
  assumes "sessions c \<noteq> []"
    and "fst (callAIForProcessing e [userMessage q] (Some (getAvailableToolsFormatted c))) = Inr m"
    and "msg_tool_calls m = None"
  shows "processQuery e c q =
     (Inr \<lparr>fullOutput = (case msg_content m of None \<Rightarrow> [] | Some content \<Rightarrow> content),
           finalAiResponse = None\<rparr>,
      snd (callAIForProcessing e [userMessage q] (Some (getAvailableToolsFormatted c))))"
  using assms by (simp add: processQuery_def Let_def case_prod_beta split: option.splits)

lemma processQuery_no_messages:
  assumes "sessions c \<noteq> []"
    and "fst (callAIForProcessing e [userMessage q] (Some (getAvailableToolsFormatted c))) = Inr m"
    and "msg_tool_calls m = Some tcs"
    and "messagesForAI (dispatch e c tcs) = []"
  shows "processQuery e c q =
     (Inr \<lparr>fullOutput = joinLines (outputLines (dispatch e c tcs)), finalAiResponse = None\<rparr>,
      snd (callAIForProcessing e [userMessage q] (Some (getAvailableToolsFormatted c))))"
  using assms by (simp add: processQuery_def Let_def case_prod_beta split: option.splits)

lemma processQuery_second_call:
  assumes "sessions c \<noteq> []"
    and "fst (callAIForProcessing e [userMessage q] (Some (getAvailableToolsFormatted c))) = Inr m"
    and "msg_tool_calls m = Some tcs"
    and "messagesForAI (dispatch e c tcs) \<noteq> []"
  shows "processQuery e c q =
     (case fst (callAIForProcessing e ([userMessage q, m] @ messagesForAI (dispatch e c tcs)) None) of
        Inl err \<Rightarrow>
          Inr \<lparr>fullOutput = joinLines (outputLines (dispatch e c tcs)
                  @ [''Error processing query: '' @ formatErrorMessage err]),
                finalAiResponse = None\<rparr>
      | Inr m2 \<Rightarrow>
          (case msg_content m2 of
             None \<Rightarrow>
               Inr \<lparr>fullOutput = joinLines (outputLines (dispatch e c tcs)),
                     finalAiResponse = None\<rparr>
           | Some content \<Rightarrow>
               if content \<noteq> [] then
                 Inr \<lparr>fullOutput = joinLines (outputLines (dispatch e c tcs)
                         @ [CHR 0x0A # ''[AI Summary]:'', content]),
                       finalAiResponse = Some content\<rparr>
               else
                 Inr \<lparr>fullOutput = joinLines (outputLines (dispatch e c tcs)),
                       finalAiResponse = None\<rparr>),
      snd (callAIForProcessing e [userMessage q] (Some (getAvailableToolsFormatted c)))
        @ snd (callAIForProcessing e ([userMessage q, m] @ messagesForAI (dispatch e c tcs)) None))"
  using assms
  by (simp add: processQuery_def Let_def case_prod_beta split: option.splits sum.splits)

lemma dispatch_nth:
  "i < length tool_calls \<Longrightarrow>
   dispatch e c tool_calls ! i = executeAndProcessToolCall e c (tool_calls ! i)"
  by (simp add: dispatch_def)

lemma processQuery_tool_calls:
  assumes "sessions c \<noteq> []"
    and "fst (callAIForProcessing e [userMessage q] (Some (getAvailableToolsFormatted c))) = Inr m"
    and "msg_tool_calls m = Some tcs"
  shows "processQuery e c q =
     (if messagesForAI (dispatch e c tcs) = [] then
        (Inr \<lparr>fullOutput = joinLines (outputLines (dispatch e c tcs)),
              finalAiResponse = None\<rparr>,
         snd (callAIForProcessing e [userMessage q] (Some (getAvailableToolsFormatted c))))
      else
        (Inr \<lparr>fullOutput = joinLines (outputLines (dispatch e c tcs)
                 @ summaryLines (fst (callAIForProcessing e
                     ([userMessage q, m] @ messagesForAI (dispatch e c tcs)) None))),
              finalAiResponse = summaryOf (fst (callAIForProcessing e
                     ([userMessage q, m] @ messagesForAI (dispatch e c tcs)) None))\<rparr>,
         snd (callAIForProcessing e [userMessage q] (Some (getAvailableToolsFormatted c)))
           @ snd (callAIForProcessing e
                    ([userMessage q, m] @ messagesForAI (dispatch e c tcs)) None)))"
proof (cases "messagesForAI (dispatch e c tcs) = []")
  case True
  with assms show ?thesis by (simp add: processQuery_no_messages)
next
  case False
  show ?thesis
    by (simp add: processQuery_second_call [OF assms False] False
        split: sum.splits option.splits)
qed

lemma execute_characterised:
  "(case map_of (sessions c) (serverNameOf (fn_name (call_function tc))) of
      None \<Rightarrow>
        executeAndProcessToolCall e c tc =
          ([''[Error: Server '' @ serverNameOf (fn_name (call_function tc)) @ '' not found]''],
           None)
    | Some s \<Rightarrow>
        (case jsonParse e (fn_arguments (call_function tc)) of
           None \<Rightarrow>
             executeAndProcessToolCall e c tc =
               ([''[Error: Invalid arguments for '' @ fn_name (call_function tc) @ '']''], None)
         | Some toolArgs \<Rightarrow>
             (case callTool s (toolNameOf (fn_name (call_function tc))) toolArgs of
                Inl err \<Rightarrow>
                  executeAndProcessToolCall e c tc =
                    ([''[Error executing '' @ fn_name (call_function tc) @ '': ''
                        @ errorDetailOf err @ '']''],
                     if resolveSendToAI (toolConfigs c) (serverConfigs c)
                          (fn_name (call_function tc))
                     then Some (toolMessage (call_id tc) (fn_name (call_function tc))
                            (jsonStringify e (JObj [(''error'', JStr
                               (''[Error executing '' @ fn_name (call_function tc) @ '': ''
                                  @ errorDetailOf err @ '']''))])))
                     else None)
              | Inr content \<Rightarrow>
                  executeAndProcessToolCall e c tc =
                    (processToolResponse e c (fn_name (call_function tc)) content,
                     if resolveSendToAI (toolConfigs c) (serverConfigs c)
                          (fn_name (call_function tc))
                     then Some (toolMessage (call_id tc) (fn_name (call_function tc))
                            (jsonStringify e content))
                     else None))))"
  by (simp add: execute_no_session execute_bad_arguments execute_error execute_success
      split: option.splits sum.splits)

lemma summaryOf_Some:
  "(summaryOf x = Some s) = (\<exists>m2. x = Inr m2 \<and> msg_content m2 = Some s \<and> s \<noteq> [])"
  by (cases x) (auto split: option.splits)

lemma demo_tools:
  "getAvailableToolsFormatted demoClient \<noteq> []"
  by (simp add: getAvailableToolsFormatted_def demoClient_def demoSession_def)

lemma demo_first_call:
  "fst (callAIForProcessing (demoEnv toolsApi) [userMessage q]
          (Some (getAvailableToolsFormatted demoClient)))
     = Inr (assistantMessage (Some ''Let me look.'') (Some demoCalls))"
  using demo_tools
  by (simp add: callAIForProcessing_def demoEnv_def toolsApi_def Let_def)

lemma demo_second_call:
  "fst (callAIForProcessing (demoEnv toolsApi) messages None)
     = Inr (assistantMessage (Some ''Summary: one file.'') None)"
  by (simp add: callAIForProcessing_def demoEnv_def toolsApi_def Let_def)

lemma demo_empty_calls:
  "fst (callAIForProcessing (demoEnv emptyCallsApi) [userMessage q]
          (Some (getAvailableToolsFormatted demoClient)))
     = Inr (assistantMessage (Some ''Paris is the capital of France.'') (Some []))"
  by (simp add: callAIForProcessing_def demoEnv_def emptyCallsApi_def Let_def)

lemma demo_direct:
  "fst (callAIForProcessing (demoEnv directApi) [userMessage q]
          (Some (getAvailableToolsFormatted demoClient)))
     = Inr (assistantMessage (Some ''Paris is the capital of France.'') None)"
  by (simp add: callAIForProcessing_def demoEnv_def directApi_def Let_def)

lemma assistantMessage_sel:
  "msg_content (assistantMessage content tool_calls) = content"
  "msg_tool_calls (assistantMessage content tool_calls) = tool_calls"
  by (simp_all add: assistantMessage_def)

lemma demo_stringify:
  "jsonStringify (demoEnv api) (JStr ''a.txt'') = CHR 0x22 # ''a.txt'' @ [CHR 0x22]"
  by (simp add: demoEnv_def)

lemma demo_execute:
  "executeAndProcessToolCall (demoEnv api) demoClient (demoCall ''c1'' ''files__list'' ''{}'')
     = ([''a.txt''],
        Some (toolMessage ''c1'' ''files__list'' (jsonStringify (demoEnv api) (JStr ''a.txt''))))"
  "executeAndProcessToolCall (demoEnv api) demoClient (demoCall ''c2'' ''files__read'' ''{}'')
     = ([''hello''], None)"
  "executeAndProcessToolCall (demoEnv api) demoClient (demoCall ''c3'' ''files__write'' ''{}'')
     = ([''[Error executing files__write: no such tool]''],
        Some (toolMessage ''c3'' ''files__write''
          (jsonStringify (demoEnv api)
             (JObj [(''error'', JStr ''[Error executing files__write: no such tool]'')]))))"
  "executeAndProcessToolCall (demoEnv api) demoClient (demoCall ''c4'' ''db__query'' ''{}'')
     = ([''[Error: Server db not found]''], None)"
proof -
  have none: "getToolConfig demoClient ''files__list'' = None"
    by (simp add: getToolConfig_def demoClient_def demoToolConfigs_def)
  have some: "\<exists>cfg. getToolConfig demoClient ''files__read'' = Some cfg
                \<and> tc_responseHandler cfg = None"
    by (simp add: getToolConfig_def demoClient_def demoToolConfigs_def)
  show "executeAndProcessToolCall (demoEnv api) demoClient (demoCall ''c1'' ''files__list'' ''{}'')
     = ([''a.txt''],
        Some (toolMessage ''c1'' ''files__list'' (jsonStringify (demoEnv api) (JStr ''a.txt''))))"
    using execute_success [where c = demoClient and e = "demoEnv api" and s = demoSession
        and tc = "demoCall ''c1'' ''files__list'' ''{}''" and toolArgs = "JObj []"
        and content = "JStr ''a.txt''"] none
    by (simp add: demoCall_sel demo_names demo_sessions demo_resolve demo_callTool
        demo_jsonParse processToolResponse_def rawContentLines_def)
  show "executeAndProcessToolCall (demoEnv api) demoClient (demoCall ''c2'' ''files__read'' ''{}'')
     = ([''hello''], None)"
    using execute_success [where c = demoClient and e = "demoEnv api" and s = demoSession
        and tc = "demoCall ''c2'' ''files__read'' ''{}''" and toolArgs = "JObj []"
        and content = "JStr ''hello''"] some
    by (auto simp add: demoCall_sel demo_names demo_sessions demo_resolve demo_callTool
        demo_jsonParse processToolResponse_def rawContentLines_def)
  show "executeAndProcessToolCall (demoEnv api) demoClient (demoCall ''c3'' ''files__write'' ''{}'')
     = ([''[Error executing files__write: no such tool]''],
        Some (toolMessage ''c3'' ''files__write''
          (jsonStringify (demoEnv api)
             (JObj [(''error'', JStr ''[Error executing files__write: no such tool]'')]))))"
    using execute_error [where c = demoClient and e = "demoEnv api" and s = demoSession
        and tc = "demoCall ''c3'' ''files__write'' ''{}''" and toolArgs = "JObj []"
        and err = "ErrorObj ''Error'' ''no such tool''"]
    by (simp add: demoCall_sel demo_names demo_sessions demo_resolve demo_callTool
        demo_jsonParse)
  show "executeAndProcessToolCall (demoEnv api) demoClient (demoCall ''c4'' ''db__query'' ''{}'')
     = ([''[Error: Server db not found]''], None)"
    by (simp add: execute_no_session demoCall_sel demo_names demo_sessions)
qed

lemma demo_dispatch:
  "outputLines (dispatch (demoEnv api) demoClient demoCalls)
     = [''a.txt'', ''hello'', ''[Error executing files__write: no such tool]'',
        ''[Error: Server db not found]'']"
  "messagesForAI (dispatch (demoEnv api) demoClient demoCalls)
     = [toolMessage ''c1'' ''files__list'' (jsonStringify (demoEnv api) (JStr ''a.txt'')),
        toolMessage ''c3'' ''files__write''
          (jsonStringify (demoEnv api)
             (JObj [(''error'', JStr ''[Error executing files__write: no such tool]'')]))]"
  by (simp_all add: dispatch_def demoCalls_def demo_execute outputLines_def messagesForAI_def)

text \<open>
  The messages collected from a batch are the messages of its calls, in the order of the
  requests, and there is one exactly when some call has one.
\<close>

lemma messagesForAI_dispatch:
  "messagesForAI (dispatch e c tcs)
     = List.map_filter (\<lambda>tc. snd (executeAndProcessToolCall e c tc)) tcs"
  by (induction tcs)
     (simp_all add: messagesForAI_def dispatch_def split: option.splits)

lemma map_filter_empty:
  "(List.map_filter f xs \<noteq> []) = (\<exists>x \<in> set xs. f x \<noteq> None)"
  by (induction xs) (auto split: option.splits)

lemma demo_produced:
  "List.map_filter (\<lambda>tc. snd (executeAndProcessToolCall (demoEnv api) demoClient tc)) demoCalls
     = [toolMessage ''c1'' ''files__list'' (jsonStringify (demoEnv api) (JStr ''a.txt'')),
        toolMessage ''c3'' ''files__write''
          (jsonStringify (demoEnv api)
             (JObj [(''error'', JStr ''[Error executing files__write: no such tool]'')]))]"
  by (simp add: demoCalls_def demo_execute)

section \<open>The example fleet, connected\<close>

text \<open>Connecting the example fleet from a fresh client gives the example client.\<close>

lemma demoClient_connected:
  "fst (connectToAllServers (demoEnv api) demoConfig
          (loadToolConfigs demoToolConfigs (newMCPClient demoConfig))) = demoClient"
  by (simp add: connectToAllServers_def connectToServer_def createCommandTransport_def
      createSSETransport_def demoEnv_def demoConfig_def newMCPClient_def loadToolConfigs_def
      demoToolConfigs_def demoClient_def demoStdio_def expandTilde_def)

section \<open>The decision to send a result to the model\<close>

text \<open>
  C1, as stated, fails: a call whose arguments do not parse is a dispatched call whose
  policy resolves to true (by the default of its server), and no decision is taken for it:
  it produces no message for the model.
\<close>

theorem unparsed_arguments_counterexample:
  "resolveSendToAI (toolConfigs demoClient) (serverConfigs demoClient) ''files__list''
   \<and> executeAndProcessToolCall (demoEnv toolsApi) demoClient (demoCall ''c5'' ''files__list'' ''{'')
       = ([''[Error: Invalid arguments for files__list]''], None)"
proof -
  have "jsonParse (demoEnv toolsApi) ''{'' = None"
    by (simp add: demoEnv_def)
  then show ?thesis
    using execute_bad_arguments [where c = demoClient and e = "demoEnv toolsApi"
        and tc = "demoCall ''c5'' ''files__list'' ''{''" and s = demoSession]
    by (simp add: demoCall_sel demo_names demo_sessions demo_resolve)
qed

text \<open>
  C1, amended. A call whose server has no session, or whose arguments do not parse, is
  returned before any decision and has no message for the model. Every other call has a
  message exactly when the precedence resolves to true, with the same resolution whether
  the invocation returns, and the message carries the result, or throws, and the message
  carries the error. The precedence is: the tool's own \<^verbatim>\<open>sendResultToAI\<close> when set,
  else the default of the owning server when set, else false.
\<close>

theorem sendResultToAI_precedence:
  "snd (executeAndProcessToolCall e c tc) =
     (case map_of (sessions c) (serverNameOf (fn_name (call_function tc))) of
        None \<Rightarrow> None
      | Some s \<Rightarrow>
          (case jsonParse e (fn_arguments (call_function tc)) of
             None \<Rightarrow> None
           | Some toolArgs \<Rightarrow>
               if resolveSendToAI (toolConfigs c) (serverConfigs c) (fn_name (call_function tc))
               then
                 Some (toolMessage (call_id tc) (fn_name (call_function tc))
                   (case callTool s (toolNameOf (fn_name (call_function tc))) toolArgs of
                      Inr content \<Rightarrow> jsonStringify e content
                    | Inl err \<Rightarrow>
                        jsonStringify e (JObj [(''error'', JStr
                          (''[Error executing '' @ fn_name (call_function tc) @ '': ''
                             @ errorDetailOf err @ '']''))])))
               else None))
   \<and> resolveSendToAI (toolConfigs c) (serverConfigs c) (fn_name (call_function tc)) =
       (case map_of (toolConfigs c) (fn_name (call_function tc)) of
          Some toolConfig \<Rightarrow>
            (case tc_sendResultToAI toolConfig of
               Some b \<Rightarrow> b
             | None \<Rightarrow>
                 (case map_of (serverConfigs c) (serverNameOf (fn_name (call_function tc))) of
                    Some serverConfig \<Rightarrow>
                      (case sc_sendResultToAI serverConfig of Some b \<Rightarrow> b | None \<Rightarrow> False)
                  | None \<Rightarrow> False))
        | None \<Rightarrow>
            (case map_of (serverConfigs c) (serverNameOf (fn_name (call_function tc))) of
               Some serverConfig \<Rightarrow>
                 (case sc_sendResultToAI serverConfig of Some b \<Rightarrow> b | None \<Rightarrow> False)
             | None \<Rightarrow> False))"
proof (intro conjI)
  show "snd (executeAndProcessToolCall e c tc) =
     (case map_of (sessions c) (serverNameOf (fn_name (call_function tc))) of
        None \<Rightarrow> None
      | Some s \<Rightarrow>
          (case jsonParse e (fn_arguments (call_function tc)) of
             None \<Rightarrow> None
           | Some toolArgs \<Rightarrow>
               if resolveSendToAI (toolConfigs c) (serverConfigs c) (fn_name (call_function tc))
               then
                 Some (toolMessage (call_id tc) (fn_name (call_function tc))
                   (case callTool s (toolNameOf (fn_name (call_function tc))) toolArgs of
                      Inr content \<Rightarrow> jsonStringify e content
                    | Inl err \<Rightarrow>
                        jsonStringify e (JObj [(''error'', JStr
                          (''[Error executing '' @ fn_name (call_function tc) @ '': ''
                             @ errorDetailOf err @ '']''))])))
               else None))"
    by (simp add: execute_no_session execute_bad_arguments execute_error execute_success
        split: option.splits sum.splits)
next
  show "resolveSendToAI (toolConfigs c) (serverConfigs c) (fn_name (call_function tc)) =
       (case map_of (toolConfigs c) (fn_name (call_function tc)) of
          Some toolConfig \<Rightarrow>
            (case tc_sendResultToAI toolConfig of
               Some b \<Rightarrow> b
             | None \<Rightarrow>
                 (case map_of (serverConfigs c) (serverNameOf (fn_name (call_function tc))) of
                    Some serverConfig \<Rightarrow>
                      (case sc_sendResultToAI serverConfig of Some b \<Rightarrow> b | None \<Rightarrow> False)
                  | None \<Rightarrow> False))
        | None \<Rightarrow>
            (case map_of (serverConfigs c) (serverNameOf (fn_name (call_function tc))) of
               Some serverConfig \<Rightarrow>
                 (case sc_sendResultToAI serverConfig of Some b \<Rightarrow> b | None \<Rightarrow> False)
             | None \<Rightarrow> False))"
    by (cases "map_of (toolConfigs c) (fn_name (call_function tc))";
        cases "map_of (serverConfigs c) (serverNameOf (fn_name (call_function tc)))")
       (simp_all add: resolveSendToAI_def split: option.splits)
qed

text \<open>
  On the example client: \<open>files__read\<close> sets \<open>false\<close> under a server default of
  \<open>true\<close> and sends nothing; \<open>files__list\<close> has no policy of its own and follows the
  server; \<open>files__write\<close> fails and sends its error under the same default;
  \<open>db__query\<close> names a server without a session and sends nothing.
\<close>

theorem sendResultToAI_precedence_witness:
  "snd (executeAndProcessToolCall (demoEnv toolsApi) demoClient
          (demoCall ''c2'' ''files__read'' ''{}'')) = None
   \<and> snd (executeAndProcessToolCall (demoEnv toolsApi) demoClient
          (demoCall ''c1'' ''files__list'' ''{}''))
       = Some (toolMessage ''c1'' ''files__list''
           (jsonStringify (demoEnv toolsApi) (JStr ''a.txt'')))
   \<and> snd (executeAndProcessToolCall (demoEnv toolsApi) demoClient
          (demoCall ''c3'' ''files__write'' ''{}''))
       = Some (toolMessage ''c3'' ''files__write''
           (jsonStringify (demoEnv toolsApi)
              (JObj [(''error'', JStr ''[Error executing files__write: no such tool]'')])))
   \<and> snd (executeAndProcessToolCall (demoEnv toolsApi) demoClient
          (demoCall ''c4'' ''db__query'' ''{}'')) = None"
  using
    sendResultToAI_precedence [where c = demoClient and e = "demoEnv toolsApi"
      and tc = "demoCall ''c2'' ''files__read'' ''{}''"]
    sendResultToAI_precedence [where c = demoClient and e = "demoEnv toolsApi"
      and tc = "demoCall ''c1'' ''files__list'' ''{}''"]
    sendResultToAI_precedence [where c = demoClient and e = "demoEnv toolsApi"
      and tc = "demoCall ''c3'' ''files__write'' ''{}''"]
    sendResultToAI_precedence [where c = demoClient and e = "demoEnv toolsApi"
      and tc = "demoCall ''c4'' ''db__query'' ''{}''"]
  by (simp add: demo_execute)

section \<open>Failures of single tool calls\<close>

text \<open>
  C2, as stated, fails: the call to a server that is not connected is a failing call whose
  policy resolves to true, and it produces no message for the model.
\<close>

theorem unconnected_server_counterexample:
  "resolveSendToAI (toolConfigs demoClient) (serverConfigs demoClient) ''db__query''
   \<and> executeAndProcessToolCall (demoEnv toolsApi) demoClient (demoCall ''c4'' ''db__query'' ''{}'')
       = ([''[Error: Server db not found]''], None)"
  by (simp add: execute_no_session demoCall_sel demo_names demo_sessions demo_resolve)

text \<open>
  C2, amended. Every call of a batch settles on its own and has its result at its own
  position. A call to a server that is not connected, and a call whose arguments do not
  parse, give one error line and never a message for the model. A call whose invocation
  throws gives one error line and, exactly when the precedence resolves to true, a message
  with the error payload. A call that returns gives the lines of its response and,
  exactly when the precedence resolves to true, a message with the stringified result.
  The trace of the query starts with the lines of all calls, in the order of the requests.
\<close>

theorem dispatch_isolates_failures:
  "length (dispatch e c tool_calls) = length tool_calls
   \<and> (\<forall>i < length tool_calls.
         dispatch e c tool_calls ! i = executeAndProcessToolCall e c (tool_calls ! i))
   \<and> (\<forall>tc \<in> set tool_calls.
         case map_of (sessions c) (serverNameOf (fn_name (call_function tc))) of
           None \<Rightarrow>
             executeAndProcessToolCall e c tc =
               ([''[Error: Server '' @ serverNameOf (fn_name (call_function tc))
                   @ '' not found]''], None)
         | Some s \<Rightarrow>
             (case jsonParse e (fn_arguments (call_function tc)) of
                None \<Rightarrow>
                  executeAndProcessToolCall e c tc =
                    ([''[Error: Invalid arguments for '' @ fn_name (call_function tc) @ '']''],
                     None)
              | Some toolArgs \<Rightarrow>
                  (case callTool s (toolNameOf (fn_name (call_function tc))) toolArgs of
                     Inl err \<Rightarrow>
                       executeAndProcessToolCall e c tc =
                         ([''[Error executing '' @ fn_name (call_function tc) @ '': ''
                             @ errorDetailOf err @ '']''],
                          if resolveSendToAI (toolConfigs c) (serverConfigs c)
                               (fn_name (call_function tc))
                          then Some (toolMessage (call_id tc) (fn_name (call_function tc))
                                 (jsonStringify e (JObj [(''error'', JStr
                                    (''[Error executing '' @ fn_name (call_function tc) @ '': ''
                                       @ errorDetailOf err @ '']''))])))
                          else None)
                   | Inr content \<Rightarrow>
                       executeAndProcessToolCall e c tc =
                         (processToolResponse e c (fn_name (call_function tc)) content,
                          if resolveSendToAI (toolConfigs c) (serverConfigs c)
                               (fn_name (call_function tc))
                          then Some (toolMessage (call_id tc) (fn_name (call_function tc))
                                 (jsonStringify e content))
                          else None))))
   \<and> (sessions c \<noteq> []
        \<and> fst (callAIForProcessing e [userMessage q] (Some (getAvailableToolsFormatted c)))
            = Inr m
        \<and> msg_tool_calls m = Some tool_calls \<longrightarrow>
        (\<exists>r tail. fst (processQuery e c q) = Inr r
           \<and> fullOutput r = joinLines (outputLines (dispatch e c tool_calls) @ tail)
           \<and> outputLines (dispatch e c tool_calls)
               = concat (map (\<lambda>tc. fst (executeAndProcessToolCall e c tc)) tool_calls)))"
proof (intro conjI allI impI ballI)
  show "length (dispatch e c tool_calls) = length tool_calls"
    by (simp add: dispatch_def)
next
  fix i assume "i < length tool_calls"
  then show "dispatch e c tool_calls ! i = executeAndProcessToolCall e c (tool_calls ! i)"
    by (rule dispatch_nth)
next
  fix tc assume "tc \<in> set tool_calls"
  show "case map_of (sessions c) (serverNameOf (fn_name (call_function tc))) of
           None \<Rightarrow>
             executeAndProcessToolCall e c tc =
               ([''[Error: Server '' @ serverNameOf (fn_name (call_function tc))
                   @ '' not found]''], None)
         | Some s \<Rightarrow>
             (case jsonParse e (fn_arguments (call_function tc)) of
                None \<Rightarrow>
                  executeAndProcessToolCall e c tc =
                    ([''[Error: Invalid arguments for '' @ fn_name (call_function tc) @ '']''],
                     None)
              | Some toolArgs \<Rightarrow>
                  (case callTool s (toolNameOf (fn_name (call_function tc))) toolArgs of
                     Inl err \<Rightarrow>
                       executeAndProcessToolCall e c tc =
                         ([''[Error executing '' @ fn_name (call_function tc) @ '': ''
                             @ errorDetailOf err @ '']''],
                          if resolveSendToAI (toolConfigs c) (serverConfigs c)
                               (fn_name (call_function tc))
                          then Some (toolMessage (call_id tc) (fn_name (call_function tc))
                                 (jsonStringify e (JObj [(''error'', JStr
                                    (''[Error executing '' @ fn_name (call_function tc) @ '': ''
                                       @ errorDetailOf err @ '']''))])))
                          else None)
                   | Inr content \<Rightarrow>
                       executeAndProcessToolCall e c tc =
                         (processToolResponse e c (fn_name (call_function tc)) content,
                          if resolveSendToAI (toolConfigs c) (serverConfigs c)
                               (fn_name (call_function tc))
                          then Some (toolMessage (call_id tc) (fn_name (call_function tc))
                                 (jsonStringify e content))
                          else None)))"
    by (rule execute_characterised)
next
  assume a: "sessions c \<noteq> []
        \<and> fst (callAIForProcessing e [userMessage q] (Some (getAvailableToolsFormatted c)))
            = Inr m
        \<and> msg_tool_calls m = Some tool_calls"
  have lines: "outputLines (dispatch e c tool_calls)
      = concat (map (\<lambda>tc. fst (executeAndProcessToolCall e c tc)) tool_calls)"
    by (simp add: outputLines_def dispatch_def comp_def)
  show "\<exists>r tail. fst (processQuery e c q) = Inr r
           \<and> fullOutput r = joinLines (outputLines (dispatch e c tool_calls) @ tail)
           \<and> outputLines (dispatch e c tool_calls)
               = concat (map (\<lambda>tc. fst (executeAndProcessToolCall e c tc)) tool_calls)"
  proof (cases "messagesForAI (dispatch e c tool_calls) = []")
    case True
    with a have "fst (processQuery e c q) =
        Inr \<lparr>fullOutput = joinLines (outputLines (dispatch e c tool_calls) @ []),
              finalAiResponse = None\<rparr>"
      by (simp add: processQuery_tool_calls)
    with lines show ?thesis
      by (metis ProcessQueryResult.select_convs(1))
  next
    case False
    with a have "fst (processQuery e c q) =
        Inr \<lparr>fullOutput = joinLines (outputLines (dispatch e c tool_calls)
                 @ summaryLines (fst (callAIForProcessing e
                     ([userMessage q, m] @ messagesForAI (dispatch e c tool_calls)) None))),
              finalAiResponse = summaryOf (fst (callAIForProcessing e
                     ([userMessage q, m] @ messagesForAI (dispatch e c tool_calls)) None))\<rparr>"
      by (simp add: processQuery_tool_calls)
    with lines show ?thesis
      by (metis ProcessQueryResult.select_convs(1))
  qed
qed

text \<open>
  The four calls of the example: one is sent, one is not, one fails on the server and one
  names a server that is not connected; all four lines are in the trace.
\<close>

theorem dispatch_isolates_failures_witness:
  "length (dispatch (demoEnv toolsApi) demoClient demoCalls) = 4
   \<and> executeAndProcessToolCall (demoEnv toolsApi) demoClient
         (demoCall ''c3'' ''files__write'' ''{}'')
       = ([''[Error executing files__write: no such tool]''],
          Some (toolMessage ''c3'' ''files__write''
            (jsonStringify (demoEnv toolsApi)
               (JObj [(''error'', JStr ''[Error executing files__write: no such tool]'')]))))
   \<and> executeAndProcessToolCall (demoEnv toolsApi) demoClient
         (demoCall ''c4'' ''db__query'' ''{}'')
       = ([''[Error: Server db not found]''], None)
   \<and> (\<exists>r tail. fst (processQuery (demoEnv toolsApi) demoClient ''which files?'') = Inr r
        \<and> fullOutput r = joinLines ([''a.txt'', ''hello'',
             ''[Error executing files__write: no such tool]'',
             ''[Error: Server db not found]''] @ tail))"
proof -
  note w = dispatch_isolates_failures [where e = "demoEnv toolsApi" and c = demoClient
      and tool_calls = demoCalls and q = "''which files?''"
      and m = "assistantMessage (Some ''Let me look.'') (Some demoCalls)"]
  from w have len: "length (dispatch (demoEnv toolsApi) demoClient demoCalls) = 4"
    by (simp add: demoCalls_def)
  from w have "\<exists>r tail. fst (processQuery (demoEnv toolsApi) demoClient ''which files?'') = Inr r
        \<and> fullOutput r
            = joinLines (outputLines (dispatch (demoEnv toolsApi) demoClient demoCalls) @ tail)"
    by (simp add: demo_sessions demo_first_call assistantMessage_sel del: joinLines.simps) blast
  then have trace: "\<exists>r tail. fst (processQuery (demoEnv toolsApi) demoClient ''which files?'') = Inr r
        \<and> fullOutput r = joinLines ([''a.txt'', ''hello'',
             ''[Error executing files__write: no such tool]'',
             ''[Error: Server db not found]''] @ tail)"
    by (simp only: demo_dispatch)
  show ?thesis
    using len trace by (simp only: demo_execute simp_thms)
qed

section \<open>Queries\<close>

text \<open>
  C5: with an empty session registry, \<^const>\<open>processQuery\<close> throws, and no request has
  been made to the model.
\<close>

theorem processQuery_rejects_without_sessions:
  "sessions c = [] \<Longrightarrow>
   processQuery e c query = (Inl (ErrorObj ''Error'' ''Not connected to any server''), [])"
  by (simp add: processQuery_def)

text \<open>A client that has not connected yet.\<close>

theorem processQuery_rejects_without_sessions_witness:
  "sessions (newMCPClient demoConfig) = []
   \<and> processQuery (demoEnv toolsApi) (newMCPClient demoConfig) ''list my files''
       = (Inl (ErrorObj ''Error'' ''Not connected to any server''), [])"
  using processQuery_rejects_without_sessions
    [of "newMCPClient demoConfig" "demoEnv toolsApi" "''list my files''"]
  by (simp add: newMCPClient_def)

text \<open>
  A first reply with text and without the \<^verbatim>\<open>tool_calls\<close> field: the trace is the
  text, there is no final response, and one request was made to the model.
\<close>

lemma direct_answer:
  assumes "sessions c \<noteq> []"
    and "fst (callAIForProcessing e [userMessage q] (Some (getAvailableToolsFormatted c))) = Inr m"
    and "msg_tool_calls m = None"
    and "msg_content m = Some content"
  shows "fst (processQuery e c q) = Inr \<lparr>fullOutput = content, finalAiResponse = None\<rparr>"
    and "length (snd (processQuery e c q)) = 1"
  using assms by (simp_all add: processQuery_direct length_snd_callAIForProcessing)

text \<open>
  C6: a first reply that carries text and an empty array of tool calls requests no tool,
  yet its text does not reach the trace: the empty array is truthy, so line 505 skips the
  text and line 510 enters the dispatch of no calls. The trace is empty.
\<close>

theorem empty_tool_calls_lose_content:
  assumes "sessions c \<noteq> []"
    and "fst (callAIForProcessing e [userMessage q] (Some (getAvailableToolsFormatted c))) = Inr m"
    and "msg_tool_calls m = Some []"
  shows "fst (processQuery e c q) = Inr \<lparr>fullOutput = [], finalAiResponse = None\<rparr>"
  using assms
  by (simp add: processQuery_tool_calls dispatch_def messagesForAI_def outputLines_def)

text \<open>The reply \<^verbatim>\<open>{content: "Paris is the capital of France.", tool_calls: []}\<close>.\<close>

theorem empty_tool_calls_lose_content_witness:
  "fst (callAIForProcessing (demoEnv emptyCallsApi) [userMessage ''What is the capital of France?'']
          (Some (getAvailableToolsFormatted demoClient)))
     = Inr (assistantMessage (Some ''Paris is the capital of France.'') (Some []))
   \<and> fst (processQuery (demoEnv emptyCallsApi) demoClient ''What is the capital of France?'')
       = Inr \<lparr>fullOutput = [], finalAiResponse = None\<rparr>"
  using empty_tool_calls_lose_content [where e = "demoEnv emptyCallsApi" and c = demoClient
      and q = "''What is the capital of France?''"
      and m = "assistantMessage (Some ''Paris is the capital of France.'') (Some [])"]
  by (simp add: demo_sessions demo_empty_calls assistantMessage_sel)

text \<open>
  C7: in a query that is accepted, \<open>tool_calls\<close> are the calls the first reply requests
  (none when the first model call failed or the reply has none) and \<open>produced\<close> are the
  messages of role \<^verbatim>\<open>tool\<close> of these calls, each taken from the result of its own call,
  in the order of the requests. There is such a message exactly when some call has one.
  Two requests are made to the model exactly when \<open>produced\<close> is not empty, and one
  otherwise; the second request carries the conversation followed by \<open>produced\<close> and no
  tool catalog; and the final response of the result is some text exactly when the second
  call was made and returned that text, not empty, as its content.
\<close>

theorem second_model_call:
  assumes "sessions c \<noteq> []"
  shows
    "let first = callAIForProcessing e [userMessage q] (Some (getAvailableToolsFormatted c));
         tool_calls =
           (case fst first of
              Inl err \<Rightarrow> []
            | Inr m \<Rightarrow> (case msg_tool_calls m of None \<Rightarrow> [] | Some tcs \<Rightarrow> tcs));
         produced = List.map_filter (\<lambda>tc. snd (executeAndProcessToolCall e c tc)) tool_calls;
         second =
           callAIForProcessing e
             (userMessage q # (case fst first of Inl err \<Rightarrow> [] | Inr m \<Rightarrow> [m]) @ produced) None;
         requests = snd (processQuery e c q)
     in (produced \<noteq> [])
          = (\<exists>tc \<in> set tool_calls. \<exists>m. snd (executeAndProcessToolCall e c tc) = Some m)
        \<and> (length requests = 2) = (produced \<noteq> [])
        \<and> (produced = [] \<longrightarrow> requests = snd first)
        \<and> (produced \<noteq> [] \<longrightarrow>
             requests = snd first @ snd second
             \<and> fst (requests ! 1) = systemPrompt # userMessage q
                 # (case fst first of Inl err \<Rightarrow> [] | Inr m \<Rightarrow> [m]) @ produced
             \<and> opt_tools (snd (requests ! 1)) = None
             \<and> opt_tool_choice (snd (requests ! 1)) = None)
        \<and> (\<exists>r. fst (processQuery e c q) = Inr r
             \<and> (\<forall>s. (finalAiResponse r = Some s) =
                   (produced \<noteq> []
                    \<and> (\<exists>m2. fst second = Inr m2 \<and> msg_content m2 = Some s \<and> s \<noteq> []))))"
proof (cases "fst (callAIForProcessing e [userMessage q] (Some (getAvailableToolsFormatted c)))")
  case (Inl err)
  with assms show ?thesis
    by (simp add: processQuery_first_failed Let_def length_snd_callAIForProcessing)
next
  case (Inr m)
  show ?thesis
  proof (cases "msg_tool_calls m")
    case None
    with assms Inr show ?thesis
      by (simp add: processQuery_direct Let_def length_snd_callAIForProcessing)
  next
    case (Some tcs)
    have link: "messagesForAI (dispatch e c tcs)
        = List.map_filter (\<lambda>tc. snd (executeAndProcessToolCall e c tc)) tcs"
      by (rule messagesForAI_dispatch)
    have ex: "(List.map_filter (\<lambda>tc. snd (executeAndProcessToolCall e c tc)) tcs \<noteq> [])
        = (\<exists>tc \<in> set tcs. \<exists>m. snd (executeAndProcessToolCall e c tc) = Some m)"
      by (simp add: map_filter_empty)
    show ?thesis
    proof (cases "List.map_filter (\<lambda>tc. snd (executeAndProcessToolCall e c tc)) tcs = []")
      case True
      with assms Inr Some link ex show ?thesis
        by (simp add: processQuery_tool_calls Let_def length_snd_callAIForProcessing)
    next
      case False
      with assms Inr Some link ex show ?thesis
        by (auto simp add: processQuery_tool_calls Let_def snd_callAIForProcessing
            summaryOf_Some)
    qed
  qed
qed

text \<open>The example query: two requests, the second without tools, and a summary.\<close>

theorem second_model_call_witness:
  "length (snd (processQuery (demoEnv toolsApi) demoClient ''which files?'')) = 2
   \<and> opt_tools (snd (snd (processQuery (demoEnv toolsApi) demoClient ''which files?'') ! 1)) = None
   \<and> (\<exists>r. fst (processQuery (demoEnv toolsApi) demoClient ''which files?'') = Inr r
        \<and> finalAiResponse r = Some ''Summary: one file.'')"
  using second_model_call [where e = "demoEnv toolsApi" and c = demoClient
      and q = "''which files?''"]
  by (auto simp add: demo_sessions demo_first_call demo_second_call assistantMessage_sel
      demo_produced Let_def snd_callAIForProcessing)

text \<open>
  C10: when the first reply carries tool calls, the trace consists of the lines of the
  dispatch followed by what the second model call adds, and of nothing else: the text of
  the first reply is not in it. The text of the first reply is the trace only when the
  reply has no \<^verbatim>\<open>tool_calls\<close>.
\<close>

theorem first_reply_content_only_without_tool_calls:
  assumes "sessions c \<noteq> []"
    and "fst (callAIForProcessing e [userMessage q] (Some (getAvailableToolsFormatted c))) = Inr m"
  shows
    "(\<forall>tcs. msg_tool_calls m = Some tcs \<longrightarrow>
        (\<exists>r. fst (processQuery e c q) = Inr r
           \<and> fullOutput r =
               joinLines (outputLines (dispatch e c tcs)
                 @ (if messagesForAI (dispatch e c tcs) = [] then []
                    else summaryLines (fst (callAIForProcessing e
                           ([userMessage q, m] @ messagesForAI (dispatch e c tcs)) None))))))
     \<and> (msg_tool_calls m = None \<longrightarrow>
        (\<exists>r. fst (processQuery e c q) = Inr r
           \<and> fullOutput r = (case msg_content m of None \<Rightarrow> [] | Some content \<Rightarrow> content)))"
  using assms by (simp add: processQuery_tool_calls processQuery_direct)

text \<open>
  The first reply of the example says "Let me look." and calls four tools; the trace has
  the four lines and the summary. Without tool calls the trace is the reply.
\<close>

theorem first_reply_content_only_without_tool_calls_witness:
  "fst (callAIForProcessing (demoEnv toolsApi) [userMessage ''which files?'']
          (Some (getAvailableToolsFormatted demoClient)))
     = Inr (assistantMessage (Some ''Let me look.'') (Some demoCalls))
   \<and> (\<exists>r. fst (processQuery (demoEnv toolsApi) demoClient ''which files?'') = Inr r
        \<and> fullOutput r =
            joinLines [''a.txt'', ''hello'', ''[Error executing files__write: no such tool]'',
              ''[Error: Server db not found]'', CHR 0x0A # ''[AI Summary]:'',
              ''Summary: one file.''])
   \<and> (\<exists>r. fst (processQuery (demoEnv directApi) demoClient ''What is the capital of France?'')
              = Inr r
        \<and> fullOutput r = ''Paris is the capital of France.'')"
  using first_reply_content_only_without_tool_calls [where e = "demoEnv toolsApi"
      and c = demoClient and q = "''which files?''"
      and m = "assistantMessage (Some ''Let me look.'') (Some demoCalls)"]
    first_reply_content_only_without_tool_calls [where e = "demoEnv directApi"
      and c = demoClient and q = "''What is the capital of France?''"
      and m = "assistantMessage (Some ''Paris is the capital of France.'') None"]
  by (simp add: demo_sessions demo_first_call demo_second_call demo_direct assistantMessage_sel
      demo_dispatch del: joinLines.simps)

section \<open>Connecting to the fleet\<close>

lemma connectToServer_connects:
  "(case connectToServer e c serverConfig of Inl err \<Rightarrow> False | Inr c' \<Rightarrow> True)
     = connects e serverConfig"
  by (simp add: connects_def connectToServer_def split: sum.splits)

lemma connectToServer_sessions:
  "connectToServer e c serverConfig = Inr c' \<Longrightarrow>
   \<exists>s. map_of (sessions c') = (map_of (sessions c))(sc_name serverConfig \<mapsto> s)"
  by (auto simp add: connectToServer_def update_conv' split: sum.splits)

lemma connectLoop_connected:
  "fst (snd (connectLoop e scs c connected logged))
     = connected @ map sc_name (filter (connects e) scs)"
proof (induction scs arbitrary: c connected logged)
  case Nil
  show ?case by simp
next
  case (Cons serverConfig rest)
  show ?case
    using connectToServer_connects [of e c serverConfig]
    by (cases "connectToServer e c serverConfig") (simp_all add: Cons.IH)
qed

lemma connectLoop_logged:
  "map fst (snd (snd (connectLoop e scs c connected logged)))
     = map fst logged @ map sc_name (filter (\<lambda>s. \<not> connects e s) scs)"
proof (induction scs arbitrary: c connected logged)
  case Nil
  show ?case by simp
next
  case (Cons serverConfig rest)
  show ?case
    using connectToServer_connects [of e c serverConfig]
    by (cases "connectToServer e c serverConfig") (simp_all add: Cons.IH)
qed

lemma connectLoop_sessions:
  "dom (map_of (sessions (fst (connectLoop e scs c connected logged))))
     = dom (map_of (sessions c)) \<union> sc_name ` {s \<in> set scs. connects e s}"
proof (induction scs arbitrary: c connected logged)
  case Nil
  show ?case by simp
next
  case (Cons serverConfig rest)
  show ?case
  proof (cases "connectToServer e c serverConfig")
    case (Inl err)
    then have "\<not> connects e serverConfig"
      using connectToServer_connects [of e c serverConfig] by simp
    with Inl show ?thesis by (auto simp add: Cons.IH)
  next
    case (Inr c')
    then have con: "connects e serverConfig"
      using connectToServer_connects [of e c serverConfig] by simp
    from Inr obtain s where
      "map_of (sessions c') = (map_of (sessions c))(sc_name serverConfig \<mapsto> s)"
      using connectToServer_sessions by blast
    then have "dom (map_of (sessions c'))
        = insert (sc_name serverConfig) (dom (map_of (sessions c)))"
      by simp
    with con show ?thesis
      using Inr by (simp add: Cons.IH) blast
  qed
qed

text \<open>
  C9: \<^const>\<open>connectToAllServers\<close> returns the names of the open descriptors that
  connect, in the order of the configuration, and logs the names of those that fail; every
  returned name has a session afterwards. The method has no way to throw. With three open
  descriptors of which one fails, two names are returned and one failure is logged.
\<close>

theorem connectToAllServers_best_effort:
  "fst (snd (connectToAllServers e config c))
     = map sc_name (filter (\<lambda>s. sc_isOpen s \<and> connects e s) config)
   \<and> map fst (snd (snd (connectToAllServers e config c)))
     = map sc_name (filter (\<lambda>s. sc_isOpen s \<and> \<not> connects e s) config)
   \<and> (\<forall>n \<in> set (fst (snd (connectToAllServers e config c))).
         map_of (sessions (fst (connectToAllServers e config c))) n \<noteq> None)
   \<and> (length (filter sc_isOpen config) = 3
        \<and> length (filter (\<lambda>s. sc_isOpen s \<and> \<not> connects e s) config) = 1 \<longrightarrow>
        length (fst (snd (connectToAllServers e config c))) = 2
        \<and> length (snd (snd (connectToAllServers e config c))) = 1)"
proof (intro conjI ballI impI)
  show connected: "fst (snd (connectToAllServers e config c))
     = map sc_name (filter (\<lambda>s. sc_isOpen s \<and> connects e s) config)"
    by (simp add: connectToAllServers_def connectLoop_connected conj_commute)
  show logged: "map fst (snd (snd (connectToAllServers e config c)))
     = map sc_name (filter (\<lambda>s. sc_isOpen s \<and> \<not> connects e s) config)"
    by (simp add: connectToAllServers_def connectLoop_logged conj_commute)
  {
    fix n assume "n \<in> set (fst (snd (connectToAllServers e config c)))"
    then have "n \<in> sc_name ` {s \<in> set (filter sc_isOpen config). connects e s}"
      by (auto simp add: connected)
    then have "n \<in> dom (map_of (sessions (fst (connectToAllServers e config c))))"
      by (simp add: connectToAllServers_def connectLoop_sessions)
    then show "map_of (sessions (fst (connectToAllServers e config c))) n \<noteq> None"
      by auto
  }
  assume three: "length (filter sc_isOpen config) = 3
        \<and> length (filter (\<lambda>s. sc_isOpen s \<and> \<not> connects e s) config) = 1"
  have "length (filter (connects e) (filter sc_isOpen config))
          + length (filter (\<lambda>s. \<not> connects e s) (filter sc_isOpen config))
        = length (filter sc_isOpen config)"
    by (rule sum_length_filter_compl)
  with three have "length (filter (\<lambda>s. sc_isOpen s \<and> connects e s) config) = 2"
    by (simp add: conj_commute)
  then show "length (fst (snd (connectToAllServers e config c))) = 2"
    by (simp add: connected)
  from three have "length (map fst (snd (snd (connectToAllServers e config c)))) = 1"
    by (simp add: logged)
  then show "length (snd (snd (connectToAllServers e config c))) = 1"
    by simp
qed

lemma demo_connects:
  "connects (demoEnv api) (demoConfig ! 0)"
  "\<not> connects (demoEnv api) (demoConfig ! 1)"
  "connects (demoEnv api) (demoConfig ! 2)"
  by (simp_all add: connects_def connectToServer_def createCommandTransport_def
      createSSETransport_def demoEnv_def demoConfig_def)

text \<open>The example fleet: \<open>db\<close> fails, \<open>files\<close> and \<open>web\<close> are returned.\<close>

theorem connectToAllServers_best_effort_witness:
  "length (filter sc_isOpen demoConfig) = 3
   \<and> fst (snd (connectToAllServers (demoEnv directApi) demoConfig (newMCPClient demoConfig)))
       = [''files'', ''web'']
   \<and> map fst (snd (snd (connectToAllServers (demoEnv directApi) demoConfig
         (newMCPClient demoConfig)))) = [''db'']
   \<and> map_of (sessions (fst (connectToAllServers (demoEnv directApi) demoConfig
         (newMCPClient demoConfig)))) ''web'' \<noteq> None"
  using connectToAllServers_best_effort [where e = "demoEnv directApi" and config = demoConfig
      and c = "newMCPClient demoConfig"] demo_connects [of directApi]
  by (simp add: demoConfig_def)

section \<open>Closing the transports\<close>

lemma closeTransports_all:
  "\<forall>t \<in> set ts. transportClose e t = None \<Longrightarrow>
   closeTransports e ts closed = (None, closed @ ts)"
  by (induction ts arbitrary: closed) simp_all

lemma closeTransports_failure:
  "\<forall>t \<in> set before. transportClose e t = None \<Longrightarrow> transportClose e t = Some err \<Longrightarrow>
   closeTransports e (before @ t # after) closed = (Some err, closed @ before)"
  by (induction before arbitrary: closed) simp_all

text \<open>
  When every close succeeds, every transport is closed and both registries are emptied;
  a second \<^const>\<open>cleanup\<close> then closes nothing and leaves them empty.
\<close>

lemma cleanup_all_closed:
  "\<forall>t \<in> snd ` set (transports c). transportClose e t = None \<Longrightarrow>
   cleanup e c = (None, c\<lparr>transports := [], sessions := []\<rparr>, map snd (transports c))"
  by (simp add: cleanup_def closeTransports_all)

lemma cleanup_again:
  "cleanup e (c\<lparr>transports := [], sessions := []\<rparr>)
     = (None, c\<lparr>transports := [], sessions := []\<rparr>, [])"
  by (simp add: cleanup_def)

text \<open>
  C8: \<^const>\<open>cleanup\<close> is not best-effort. When closing a transport throws, the method
  throws: the transports after it are never closed, and neither registry is cleared.
\<close>

theorem cleanup_stops_at_first_failure:
  assumes "transports c = before @ (n, t) # after"
    and "\<forall>x \<in> set before. transportClose e (snd x) = None"
    and "transportClose e t = Some err"
  shows "cleanup e c = (Some err, c, map snd before)"
  using assms closeTransports_failure [of "map snd before" e t err "map snd after" "[]"]
  by (simp add: cleanup_def)

text \<open>
  The example client: closing the spawned process of \<open>files\<close> fails, and the event
  stream of \<open>web\<close>, which would close, is left open.
\<close>

theorem cleanup_stops_at_first_failure_witness:
  "transports demoClient
     = [(''files'', demoStdio), (''web'', SSEClientTransport ''http://localhost:3000/sse'')]
   \<and> transportClose (demoEnv directApi) (SSEClientTransport ''http://localhost:3000/sse'') = None
   \<and> cleanup (demoEnv directApi) demoClient
       = (Some (ErrorObj ''Error'' ''EPIPE''), demoClient, [])"
proof -
  have t: "transports demoClient
      = [] @ (''files'', demoStdio) # [(''web'', SSEClientTransport ''http://localhost:3000/sse'')]"
    by (simp add: demoClient_def)
  have failing: "transportClose (demoEnv directApi) demoStdio = Some (ErrorObj ''Error'' ''EPIPE'')"
    by (simp add: demoEnv_def demoStdio_def)
  have ok: "transportClose (demoEnv directApi) (SSEClientTransport ''http://localhost:3000/sse'')
      = None"
    by (simp add: demoEnv_def)
  have "cleanup (demoEnv directApi) demoClient
      = (Some (ErrorObj ''Error'' ''EPIPE''), demoClient, [])"
    using cleanup_stops_at_first_failure [OF t _ failing] by simp
  with t ok show ?thesis by simp
qed

end
